theory Spec2Isabelle
  imports Main "HOL-Library.Word"
begin

unbundle bit_operations_syntax

section \<open>The object-store library as the binding sees it\<close>

text \<open>
  The binding is written against CPython 2 and an object-store library whose sources are
  not part of the repository. The platform is LP64: \<open>long\<close> and \<open>size_t\<close> have 64 bits,
  \<open>int\<close> and \<open>unsigned int\<close> have 32.
\<close>

type_synonym addr = nat

datatype git_otype =
  GIT_OBJ_ANY | GIT_OBJ_BAD | GIT_OBJ_COMMIT | GIT_OBJ_TREE | GIT_OBJ_BLOB | GIT_OBJ_TAG

text \<open>The values of the enumeration in the library's header.\<close>

definition git_otype_code :: "git_otype \<Rightarrow> 64 word" where
  "git_otype_code t =
     (case t of
        GIT_OBJ_ANY \<Rightarrow> - 2
      | GIT_OBJ_BAD \<Rightarrow> - 1
      | GIT_OBJ_COMMIT \<Rightarrow> 1
      | GIT_OBJ_TREE \<Rightarrow> 2
      | GIT_OBJ_BLOB \<Rightarrow> 3
      | GIT_OBJ_TAG \<Rightarrow> 4)"

datatype git_error =
    GIT_ENOTOID | GIT_ENOTFOUND | GIT_ENOMEM | GIT_EOSERR | GIT_EOBJTYPE
  | GIT_EOBJCORRUPTED | GIT_EOTHER int

text \<open>\<open>git_oid\<close> is \<open>struct { unsigned char id[20]; }\<close>.\<close>

typedef git_oid = "{bs :: 8 word list. length bs = 20}"
  morphisms oid_bytes Abs_git_oid
  by (rule exI [of _ "replicate 20 0"]) simp

definition GIT_OID_HEXSZ :: nat where
  "GIT_OID_HEXSZ = 40"

definition from_hex :: "char \<Rightarrow> nat option" where
  "from_hex c =
     (let n = of_char c :: nat in
      if 48 \<le> n \<and> n \<le> 57 then Some (n - 48)
      else if 97 \<le> n \<and> n \<le> 102 then Some (n - 87)
      else if 65 \<le> n \<and> n \<le> 70 then Some (n - 55)
      else None)"

definition to_hex :: "nat \<Rightarrow> char" where
  "to_hex v = ''0123456789abcdef'' ! v"

fun hex_to_bytes :: "string \<Rightarrow> 8 word list option" where
  "hex_to_bytes [] = Some []"
| "hex_to_bytes [a] = None"
| "hex_to_bytes (a # b # rest) =
     (case (from_hex a, from_hex b) of
        (Some h, Some l) \<Rightarrow>
          (case hex_to_bytes rest of
             None \<Rightarrow> None
           | Some bs \<Rightarrow> Some (of_nat (16 * h + l) # bs))
      | _ \<Rightarrow> None)"

text \<open>
  Modelled from the spec: \<open>git_oid_mkstr\<close> of the object-store library is missing. The
  spec's identifier codec accepts a text exactly when it is 40 hexadecimal characters, in
  either letter case, and yields the 20 bytes they spell; anything else is
  \<open>GIT_ENOTOID\<close>. The function receives a C string.
\<close>

definition git_oid_mkstr :: "string \<Rightarrow> git_error + git_oid" where
  "git_oid_mkstr hex =
     (if length hex = GIT_OID_HEXSZ then
        (case hex_to_bytes hex of
           None \<Rightarrow> Inl GIT_ENOTOID
         | Some bs \<Rightarrow> Inr (Abs_git_oid bs))
      else Inl GIT_ENOTOID)"

text \<open>
  Modelled from the spec: \<open>git_oid_fmt\<close> of the object-store library is missing. The spec's
  codec writes each byte as two lowercase hexadecimal digits, high nibble first, without
  a terminator.
\<close>

definition fmt_byte :: "8 word \<Rightarrow> string" where
  "fmt_byte b = [to_hex (unat b div 16), to_hex (unat b mod 16)]"

definition git_oid_fmt :: "git_oid \<Rightarrow> string" where
  "git_oid_fmt oid = concat (map fmt_byte (oid_bytes oid))"

text \<open>
  A library object through the object interface: its type, its identifier (\<open>NULL\<close> while
  the object exists in memory only) and, for a tag, the tagged object (\<open>NULL\<close> while none
  is set).
\<close>

datatype git_object =
  GitObject (git_object_type: git_otype) (git_object_id: "git_oid option")
    (git_tag_target: "git_object option")

record git_rawobj =
  rawobj_type :: git_otype
  rawobj_data :: string

text \<open>
  The store behind a repository handle: the objects it holds under their identifiers, and
  what a raw read of an identifier answers.
\<close>

record git_repository =
  odb_objects :: "git_oid \<Rightarrow> git_object option"
  odb_read :: "git_oid \<Rightarrow> git_error + git_rawobj"

text \<open>
  Modelled from the spec: \<open>git_repository_lookup\<close>, \<open>git_object_new\<close>, \<open>git_object_write\<close>,
  \<open>git_tag_set_target\<close>, \<open>git_tag_type\<close> and \<open>git_odb_read\<close> of the object-store library
  are missing. By the store contract of the spec a lookup answers the object held under
  the identifier, filtered by type, or nothing; the object it answers carries that
  identifier. A new object has no identifier; a successful write assigns the identifier
  the store answers, a failed one changes nothing. Setting a tag's target stores the
  object, and the tag's target type is the type of the stored object.
\<close>

definition git_repository_lookup ::
  "git_repository \<Rightarrow> git_oid \<Rightarrow> git_otype \<Rightarrow> git_object option" where
  "git_repository_lookup r oid ty =
     (case odb_objects r oid of
        None \<Rightarrow> None
      | Some ob \<Rightarrow>
          if ty \<noteq> GIT_OBJ_ANY \<and> git_object_type ob \<noteq> ty then None
          else Some (GitObject (git_object_type ob) (Some oid) (git_tag_target ob)))"

definition git_object_new :: "bool \<Rightarrow> git_repository \<Rightarrow> git_otype \<Rightarrow> git_object option" where
  "git_object_new mem r ty = (if mem then Some (GitObject ty None None) else None)"

definition git_object_write :: "git_error + git_oid \<Rightarrow> git_object \<Rightarrow> git_error + git_object" where
  "git_object_write answer ob =
     (case answer of
        Inl err \<Rightarrow> Inl err
      | Inr oid \<Rightarrow> Inr (GitObject (git_object_type ob) (Some oid) (git_tag_target ob)))"

definition git_tag_set_target :: "git_object \<Rightarrow> git_object \<Rightarrow> git_object" where
  "git_tag_set_target tg ob = GitObject (git_object_type tg) (git_object_id tg) (Some ob)"

definition git_tag_type :: "git_object \<Rightarrow> git_otype" where
  "git_tag_type tg =
     (case git_tag_target tg of None \<Rightarrow> GIT_OBJ_BAD | Some ob \<Rightarrow> git_object_type ob)"

definition git_odb_read :: "git_repository \<Rightarrow> git_oid \<Rightarrow> git_error + git_rawobj" where
  "git_odb_read r oid = odb_read r oid"

text \<open>
  A tree through the tree interface: its entries in order. A pointer to an entry is the
  number of its slot.
\<close>

record git_tree_entry =
  entry_attr :: "32 word"
  entry_name :: string
  entry_id :: git_oid

record git_tree =
  entries :: "git_tree_entry list"

fun slot_of_name :: "string \<Rightarrow> git_tree_entry list \<Rightarrow> nat option" where
  "slot_of_name nm [] = None"
| "slot_of_name nm (e # es) =
     (if entry_name e = nm then Some 0 else map_option Suc (slot_of_name nm es))"

text \<open>
  Modelled from the spec: the tree interface of the object-store library is missing. By
  the spec a tree is an ordered sequence of entries with a count; an entry is found by
  its position, which must lie between 0 and the count, or by its exact name; removal
  takes out the one entry found and fails when there is none, changing nothing; adding
  appends an entry and fails, changing nothing, when the storage cannot grow.
\<close>

definition git_tree_entrycount :: "git_tree \<Rightarrow> 64 word" where
  "git_tree_entrycount t = of_nat (length (entries t))"

definition git_tree_entry_byindex :: "git_tree \<Rightarrow> 32 word \<Rightarrow> nat option" where
  "git_tree_entry_byindex t idx =
     (if 0 \<le> sint idx \<and> nat (sint idx) < length (entries t) then Some (nat (sint idx))
      else None)"

definition git_tree_entry_byname :: "git_tree \<Rightarrow> string \<Rightarrow> nat option" where
  "git_tree_entry_byname t nm = slot_of_name nm (entries t)"

definition remove_slot :: "nat \<Rightarrow> git_tree \<Rightarrow> git_tree" where
  "remove_slot i t = t\<lparr>entries := take i (entries t) @ drop (Suc i) (entries t)\<rparr>"

definition git_tree_remove_entry_byindex :: "git_tree \<Rightarrow> 32 word \<Rightarrow> git_error + git_tree" where
  "git_tree_remove_entry_byindex t idx =
     (case git_tree_entry_byindex t idx of
        None \<Rightarrow> Inl GIT_ENOTFOUND
      | Some i \<Rightarrow> Inr (remove_slot i t))"

definition git_tree_remove_entry_byname :: "git_tree \<Rightarrow> string \<Rightarrow> git_error + git_tree" where
  "git_tree_remove_entry_byname t nm =
     (case git_tree_entry_byname t nm of
        None \<Rightarrow> Inl GIT_ENOTFOUND
      | Some i \<Rightarrow> Inr (remove_slot i t))"


section \<open>The wrapper structs\<close>

text \<open>
  \<open>OBJECT_STRUCT(_name, _ptr_type, _ptr_name)\<close> declares \<open>Object\<close>, \<open>Commit\<close>, \<open>Tree\<close> and
  \<open>Blob\<close> with one layout; the pointer field, named \<open>obj\<close>, \<open>commit\<close>, \<open>tree\<close> or \<open>blob\<close>
  there, is \<open>obj\<close> here, and the field \<open>repo\<close> is \<open>py_repo\<close>. \<open>ob_refcnt\<close> is the
  reference count of \<open>PyObject_HEAD\<close>. A wrapper holds the state of its library object.
  \<open>TreeEntry\<close> has another layout: after the head come \<open>entry\<close> and \<open>tree\<close>, and the struct
  ends where the field \<open>obj\<close> of an \<open>Object\<close> begins.
\<close>

record Repository =
  repo :: git_repository

record 'p OBJECT_STRUCT =
  ob_refcnt :: nat
  py_repo :: Repository
  own_obj :: bool
  obj :: 'p

type_synonym Object = "git_object OBJECT_STRUCT"

type_synonym Tree = "git_tree OBJECT_STRUCT"

record TreeEntry =
  entry :: nat
  tree :: Tree

section \<open>Values that cross the Python boundary\<close>

text \<open>
  A Python \<open>int\<close> holds a C \<open>long\<close>, a \<open>long\<close> any integer. A Python \<open>str\<close> is a byte string
  of any content, a NUL byte included; a \<open>unicode\<close> is a sequence of code points. An
  instance of \<open>Commit\<close>, \<open>Tree\<close>, \<open>Blob\<close> or \<open>Tag\<close> is referred to by its type and its
  address, an instance of \<open>TreeEntry\<close> is held by value. \<open>PyOther\<close> is an object of a type
  that derives from none of these (a \<open>float\<close>, a list) and carries the name of its type;
  it is neither a \<open>str\<close> nor a \<open>unicode\<close>, and no integer is taken from it.

  Every type above can be subclassed, the types of this module too (each sets
  \<open>Py_TPFLAGS_BASETYPE\<close>). \<open>PySubclass b n r s\<close> is an instance of a subclass: \<open>b\<close> is the
  part it inherits, \<open>n\<close> the name of its type, \<open>r\<close> and \<open>s\<close> what its \<open>__repr__\<close> and
  \<open>__str__\<close> answer (\<open>None\<close> when they raise). A \<open>bool\<close> is an instance of a subclass of
  \<open>int\<close>.
\<close>

datatype py_type = CommitType | TreeType | BlobType | TagType

datatype pyobj =
    PyNone
  | PyString string
  | PyUnicode "nat list"
  | PyInt "64 word"
  | PyLong int
  | PyRepository Repository
  | PyInstance py_type addr
  | PyTreeEntry TreeEntry
  | PyOther string
  | PySubclass pyobj string "string option" "string option"

datatype py_error =
    MemoryError
  | GitError_errno
  | GitError string
  | GitError_strerror git_error
  | TypeError string
  | ValueError string
  | OverflowError string
  | UnicodeEncodeError
  | KeyError pyobj
  | IndexError pyobj
  | Abort

text \<open>The C struct behind an object: what an instance of a subclass inherits.\<close>

fun py_base :: "pyobj \<Rightarrow> pyobj" where
  "py_base (PySubclass b n r s) = py_base b"
| "py_base v = v"

definition PyString_Check :: "pyobj \<Rightarrow> bool" where
  "PyString_Check v = (case py_base v of PyString _ \<Rightarrow> True | _ \<Rightarrow> False)"

definition PyInt_Check :: "pyobj \<Rightarrow> bool" where
  "PyInt_Check v = (case py_base v of PyInt _ \<Rightarrow> True | _ \<Rightarrow> False)"

text \<open>
  \<open>PyObject_TypeCheck(v, &ObjectType)\<close>: \<open>initpygit2\<close> sets \<open>tp_base = &ObjectType\<close> for
  \<open>Commit\<close>, \<open>Tree\<close>, \<open>Blob\<close> and \<open>Tag\<close>, and for \<open>TreeEntry\<close> as well. \<open>Object\<close> itself has no
  \<open>tp_new\<close> and no instances.
\<close>

definition PyObject_TypeCheck_Object :: "pyobj \<Rightarrow> bool" where
  "PyObject_TypeCheck_Object v =
     (case py_base v of PyInstance _ _ \<Rightarrow> True | PyTreeEntry _ \<Rightarrow> True | _ \<Rightarrow> False)"

definition PyObject_TypeCheck_Repository :: "pyobj \<Rightarrow> bool" where
  "PyObject_TypeCheck_Repository v = (case py_base v of PyRepository _ \<Rightarrow> True | _ \<Rightarrow> False)"

definition py_type_name :: "py_type \<Rightarrow> string" where
  "py_type_name t =
     (case t of
        CommitType \<Rightarrow> ''pygit2.Commit''
      | TreeType \<Rightarrow> ''pygit2.Tree''
      | BlobType \<Rightarrow> ''pygit2.Blob''
      | TagType \<Rightarrow> ''pygit2.Tag'')"

definition tp_name :: "pyobj \<Rightarrow> string" where
  "tp_name v =
     (case v of
        PyNone \<Rightarrow> ''NoneType''
      | PyString _ \<Rightarrow> ''str''
      | PyUnicode _ \<Rightarrow> ''unicode''
      | PyInt _ \<Rightarrow> ''int''
      | PyLong _ \<Rightarrow> ''long''
      | PyRepository _ \<Rightarrow> ''pygit2.Repository''
      | PyInstance t _ \<Rightarrow> py_type_name t
      | PyTreeEntry _ \<Rightarrow> ''pygit2.TreeEntry''
      | PyOther n \<Rightarrow> n
      | PySubclass _ n _ _ \<Rightarrow> n)"

text \<open>
  A \<open>char *\<close> taken from a Python string points at its buffer, and every C function that
  receives it reads a C string: the bytes before the first NUL.
\<close>

definition c_str :: "string \<Rightarrow> string" where
  "c_str s = takeWhile (\<lambda>c. c \<noteq> CHR 0x00) s"

text \<open>
  The default encoding of the interpreter is ASCII: a \<open>unicode\<close> is encoded when each of
  its code points is below 128, and the encoder raises otherwise.
\<close>

definition default_encode :: "nat list \<Rightarrow> string option" where
  "default_encode u = (if list_all (\<lambda>c. c < 128) u then Some (map char_of u) else None)"

text \<open>
  \<open>PyString_AsString\<close> answers the buffer of a \<open>str\<close>, and the buffer of the default
  encoding of a \<open>unicode\<close>; otherwise it raises and answers \<open>NULL\<close> (\<open>Inl\<close>, with the
  exception it leaves pending).
\<close>

definition PyString_AsString :: "pyobj \<Rightarrow> py_error + string" where
  "PyString_AsString v =
     (case py_base v of
        PyString s \<Rightarrow> Inr (c_str s)
      | PyUnicode u \<Rightarrow>
          (case default_encode u of
             None \<Rightarrow> Inl UnicodeEncodeError
           | Some s \<Rightarrow> Inr (c_str s))
      | _ \<Rightarrow>
          Inl (TypeError (''expected string or Unicode object, '' @ take 200 (tp_name v)
                          @ '' found'')))"

text \<open>\<open>PyString_AS_STRING\<close> is the unchecked macro; its callers have tested \<open>PyString_Check\<close>.\<close>

definition PyString_AS_STRING :: "pyobj \<Rightarrow> string" where
  "PyString_AS_STRING v = (case py_base v of PyString s \<Rightarrow> c_str s | _ \<Rightarrow> [])"

definition PyString_FromStringAndSize :: "string \<Rightarrow> nat \<Rightarrow> pyobj" where
  "PyString_FromStringAndSize buf n = PyString (take n buf)"

text \<open>
  \<open>PyInt_AsLong\<close> reads an \<open>int\<close>, and converts a \<open>long\<close> that fits a C \<open>long\<close>. Its
  callers are \<open>Tree_fix_index\<close>, after \<open>PyInt_Check\<close>, and the format \<open>i\<close> of
  \<open>PyArg_ParseTuple\<close>, which refuses a \<open>float\<close>.
\<close>

definition PyInt_AsLong :: "pyobj \<Rightarrow> py_error + 64 word" where
  "PyInt_AsLong v =
     (case py_base v of
        PyInt i \<Rightarrow> Inr i
      | PyLong l \<Rightarrow>
          (if - (2 ^ 63) \<le> l \<and> l < 2 ^ 63 then Inr (word_of_int l)
           else Inl (OverflowError ''long int too large to convert to int''))
      | _ \<Rightarrow> Inl (TypeError ''an integer is required''))"

definition PyInt_FromLong :: "64 word \<Rightarrow> pyobj" where
  "PyInt_FromLong i = PyInt i"

text \<open>
  \<open>repr\<close> and \<open>str\<close>. For a \<open>str\<close> both succeed: \<open>repr\<close> quotes the text and escapes what is
  not printable, \<open>str\<close> is the text itself. \<open>str\<close> of \<open>None\<close> is \<open>None\<close>, \<open>str\<close> of a
  \<open>unicode\<close> is its default encoding. An instance of a subclass answers what its methods
  answer. \<open>Error_set_py_str\<close>, the one caller, passes to \<open>PyObject_Repr\<close> an object that
  has passed \<open>PyString_Check\<close>, and to \<open>PyObject_Str\<close> the text of an identifier or what
  the getter of \<open>sha\<close> has answered; for the objects that never arrive the outcome is not
  modelled (\<open>None\<close>).
\<close>

definition repr_char :: "char \<Rightarrow> char \<Rightarrow> string" where
  "repr_char quote c =
     (let n = of_char c :: nat in
      if c = quote \<or> c = CHR 0x5C then [CHR 0x5C, c]
      else if n = 9 then [CHR 0x5C, CHR ''t'']
      else if n = 10 then [CHR 0x5C, CHR ''n'']
      else if n = 13 then [CHR 0x5C, CHR ''r'']
      else if n < 32 \<or> 127 \<le> n then [CHR 0x5C, CHR ''x'', to_hex (n div 16), to_hex (n mod 16)]
      else [c])"

definition string_repr :: "string \<Rightarrow> string" where
  "string_repr s =
     (let quote = (if CHR 0x27 \<in> set s \<and> CHR 0x22 \<notin> set s then CHR 0x22 else CHR 0x27)
      in quote # concat (map (repr_char quote) s) @ [quote])"

definition PyObject_Repr :: "pyobj \<Rightarrow> pyobj option" where
  "PyObject_Repr v =
     (case v of
        PyString s \<Rightarrow> Some (PyString (string_repr s))
      | PySubclass _ _ r _ \<Rightarrow> map_option PyString r
      | _ \<Rightarrow> None)"

definition PyObject_Str :: "pyobj \<Rightarrow> pyobj option" where
  "PyObject_Str v =
     (case v of
        PyNone \<Rightarrow> Some (PyString ''None'')
      | PyString s \<Rightarrow> Some (PyString s)
      | PyUnicode u \<Rightarrow> map_option PyString (default_encode u)
      | PySubclass _ _ _ s \<Rightarrow> map_option PyString s
      | _ \<Rightarrow> None)"

section \<open>Error translation and identifier parsing\<close>

text \<open>
  A raised Python exception is a value. \<open>GitError_errno\<close> is \<open>PyErr_SetFromErrno(GitError)\<close>
  and \<open>GitError_strerror err\<close> is \<open>GitError\<close> with the library's message for \<open>err\<close>;
  \<open>Abort\<close> is the end of defined behaviour: a failed \<open>assert\<close>, a \<open>NULL\<close> pointer, a read
  past the end of a struct. Each function is taken as entered with no exception pending.
\<close>

definition Error_set :: "git_error \<Rightarrow> py_error" where
  "Error_set err =
     (case err of
        GIT_ENOMEM \<Rightarrow> MemoryError
      | GIT_EOSERR \<Rightarrow> GitError_errno
      | GIT_EOBJTYPE \<Rightarrow> GitError ''Invalid object type.''
      | _ \<Rightarrow> GitError_strerror err)"

definition Error_set_py_str :: "git_error \<Rightarrow> pyobj \<Rightarrow> py_error" where
  "Error_set_py_str err py_str =
     (case err of
        GIT_ENOTOID \<Rightarrow>
          (if \<not> PyString_Check py_str then
             TypeError (''Hex SHA must be str, not '' @ take 200 (tp_name py_str))
           else
             (case PyObject_Repr py_str of
                Some repr \<Rightarrow> ValueError (''Invalid hex SHA: '' @ PyString_AS_STRING repr)
              | None \<Rightarrow> ValueError ''Invalid hex SHA: <error in __repr__>''))
      | GIT_ENOTFOUND \<Rightarrow> KeyError py_str
      | GIT_EOBJCORRUPTED \<Rightarrow>
          (case PyObject_Str py_str of
             Some repr \<Rightarrow> GitError (''Corrupted object: '' @ PyString_AS_STRING repr)
           | None \<Rightarrow> GitError ''Corrupted object: <error in __str__>'')
      | _ \<Rightarrow> Error_set err)"

text \<open>
  When \<open>PyString_AsString\<close> has raised, each caller of \<open>py_str_to_git_oid\<close> goes on to
  \<open>Error_set_py_str\<close>, which replaces the pending exception.
\<close>

definition py_str_to_git_oid :: "pyobj \<Rightarrow> git_error + git_oid" where
  "py_str_to_git_oid py_str =
     (case PyString_AsString py_str of
        Inl _ \<Rightarrow> Inl GIT_ENOTOID
      | Inr hex \<Rightarrow> git_oid_mkstr hex)"

text \<open>The words of the spec about identifier text: hexadecimal characters, lowercase.\<close>

definition is_hex_char :: "char \<Rightarrow> bool" where
  "is_hex_char c \<longleftrightarrow> c \<in> set ''0123456789abcdefABCDEF''"

definition is_lower_hex_char :: "char \<Rightarrow> bool" where
  "is_lower_hex_char c \<longleftrightarrow> c \<in> set ''0123456789abcdef''"

definition tolower :: "char \<Rightarrow> char" where
  "tolower c =
     (let n = of_char c :: nat in if 65 \<le> n \<and> n \<le> 90 then char_of (n + 32) else c)"

definition is_hex_sha :: "string \<Rightarrow> bool" where
  "is_hex_sha s \<longleftrightarrow> length s = 40 \<and> list_all is_hex_char s"

section \<open>The heap of wrappers\<close>

text \<open>
  \<open>Tag\<close> adds the field \<open>target\<close> to the layout of \<open>Object\<close>, \<open>NULL\<close> being \<open>None\<close>. The
  Python objects that refer to each other live in cells of a heap, an address being the
  number of a cell. A cell has the layout of \<open>Tag\<close>; in a cell of another type \<open>target\<close>
  stays \<open>NULL\<close>, as the allocator fills a new cell with zeros. Reaching a reference count
  of zero hands the cell to the interpreter, which is not modelled; nor are the
  reference counts of the objects that live outside the heap.
\<close>

record Tag = "git_object OBJECT_STRUCT" +
  target :: "pyobj option"

type_synonym pyheap = "Tag list"

definition cell_of :: "Object \<Rightarrow> Tag" where
  "cell_of s =
     \<lparr>ob_refcnt = ob_refcnt s, py_repo = py_repo s, own_obj = own_obj s, obj = obj s,
      target = None\<rparr>"

definition Py_INCREF :: "pyheap \<Rightarrow> pyobj \<Rightarrow> pyheap" where
  "Py_INCREF h v =
     (case py_base v of
        PyInstance _ a \<Rightarrow> h[a := (h ! a)\<lparr>ob_refcnt := ob_refcnt (h ! a) + 1\<rparr>]
      | _ \<Rightarrow> h)"

definition Py_XDECREF :: "pyheap \<Rightarrow> pyobj option \<Rightarrow> pyheap" where
  "Py_XDECREF h p =
     (case p of
        None \<Rightarrow> h
      | Some v \<Rightarrow>
          (case py_base v of
             PyInstance _ a \<Rightarrow> h[a := (h ! a)\<lparr>ob_refcnt := ob_refcnt (h ! a) - 1\<rparr>]
           | _ \<Rightarrow> h))"

section \<open>Repository and Object\<close>

text \<open>
  \<open>mem\<close> tells whether the allocations of the call succeed. \<open>wrap_object\<close> and \<open>wrap_tag\<close>
  put the new wrappers into fresh cells, the reference to the repository and the library
  object written at once; \<open>own_obj\<close> is 0 in a new cell.
\<close>

definition new_cell :: "git_object \<Rightarrow> Repository \<Rightarrow> Tag" where
  "new_cell ob rp =
     \<lparr>ob_refcnt = 1, py_repo = rp, own_obj = False, obj = ob, target = None\<rparr>"

function wrap_tag :: "bool \<Rightarrow> pyheap \<Rightarrow> git_object \<Rightarrow> Repository \<Rightarrow> py_error + (pyheap \<times> addr)"
  and wrap_object :: "bool \<Rightarrow> pyheap \<Rightarrow> git_object \<Rightarrow> Repository \<Rightarrow> py_error + (pyheap \<times> pyobj)"
  where
  "wrap_tag mem h tg rp =
     (if \<not> mem then Inl MemoryError
      else
        (case git_tag_target tg of
           None \<Rightarrow> Inl Abort
         | Some t \<Rightarrow>
             (case wrap_object mem (h @ [new_cell tg rp]) t rp of
                Inl e \<Rightarrow> Inl e
              | Inr (h', py_target) \<Rightarrow>
                  Inr (Py_INCREF (h'[length h := (h' ! length h)\<lparr>target := Some py_target\<rparr>])
                         py_target,
                       length h))))"
| "wrap_object mem h ob rp =
     (case git_object_type ob of
        GIT_OBJ_COMMIT \<Rightarrow>
          (if mem then Inr (h @ [new_cell ob rp], PyInstance CommitType (length h))
           else Inl MemoryError)
      | GIT_OBJ_TREE \<Rightarrow>
          (if mem then Inr (h @ [new_cell ob rp], PyInstance TreeType (length h))
           else Inl MemoryError)
      | GIT_OBJ_BLOB \<Rightarrow>
          (if mem then Inr (h @ [new_cell ob rp], PyInstance BlobType (length h))
           else Inl MemoryError)
      | GIT_OBJ_TAG \<Rightarrow>
          (case wrap_tag mem h ob rp of
             Inl e \<Rightarrow> Inl (if e = Abort then Abort else MemoryError)
           | Inr (h', a) \<Rightarrow> Inr (h', PyInstance TagType a))
      | _ \<Rightarrow> Inl Abort)"
  by pat_completeness auto
termination
proof (relation "measure (\<lambda>x. case x of
        Inl (mem, h, tg, rp) \<Rightarrow> 2 * size tg
      | Inr (mem, h, ob, rp) \<Rightarrow> 2 * size ob + 1)")
  show "wf (measure (\<lambda>x. case x of
        Inl (mem, h, tg, rp) \<Rightarrow> 2 * size tg
      | Inr (mem, h, ob, rp) \<Rightarrow> 2 * size ob + 1))"
    by simp
next
  fix mem :: bool and h :: pyheap and tg t :: git_object and rp :: Repository
  assume "git_tag_target tg = Some t"
  then have "size t < size tg"
    by (cases tg) simp
  then show "(Inr (mem, h @ [new_cell tg rp], t, rp), Inl (mem, h, tg, rp))
      \<in> measure (\<lambda>x. case x of
        Inl (mem, h, tg, rp) \<Rightarrow> 2 * size tg
      | Inr (mem, h, ob, rp) \<Rightarrow> 2 * size ob + 1)"
    by simp
next
  fix mem :: bool and h :: pyheap and ob :: git_object and rp :: Repository
  show "(Inl (mem, h, ob, rp), Inr (mem, h, ob, rp))
      \<in> measure (\<lambda>x. case x of
        Inl (mem, h, tg, rp) \<Rightarrow> 2 * size tg
      | Inr (mem, h, ob, rp) \<Rightarrow> 2 * size ob + 1)"
    by simp
qed

definition Repository_getitem ::
  "bool \<Rightarrow> pyheap \<Rightarrow> Repository \<Rightarrow> pyobj \<Rightarrow> py_error + (pyheap \<times> pyobj)" where
  "Repository_getitem mem h self v =
     (case py_str_to_git_oid v of
        Inl err \<Rightarrow> Inl (Error_set_py_str err v)
      | Inr oid \<Rightarrow>
          (case git_repository_lookup (repo self) oid GIT_OBJ_ANY of
             None \<Rightarrow> Inl (Error_set_py_str GIT_ENOTFOUND v)
           | Some ob \<Rightarrow>
               (case wrap_object mem h ob self of
                  Inl e \<Rightarrow> Inl e
                | Inr (h', py_obj) \<Rightarrow>
                    (case py_obj of
                       PyInstance t a \<Rightarrow> Inr (h'[a := (h' ! a)\<lparr>own_obj := False\<rparr>], py_obj)
                     | _ \<Rightarrow> Inr (h', py_obj)))))"

definition Repository_read_raw :: "git_repository \<Rightarrow> git_oid \<Rightarrow> git_error + git_rawobj" where
  "Repository_read_raw r oid = git_odb_read r oid"

definition Object_get_type :: "(git_object, 'z) OBJECT_STRUCT_scheme \<Rightarrow> pyobj" where
  "Object_get_type self = PyInt_FromLong (git_otype_code (git_object_type (obj self)))"

definition Object_get_sha :: "(git_object, 'z) OBJECT_STRUCT_scheme \<Rightarrow> pyobj" where
  "Object_get_sha self =
     (case git_object_id (obj self) of
        None \<Rightarrow> PyNone
      | Some oid \<Rightarrow> PyString_FromStringAndSize (git_oid_fmt oid) GIT_OID_HEXSZ)"

definition Object_read_raw :: "(git_object, 'z) OBJECT_STRUCT_scheme \<Rightarrow> py_error + pyobj" where
  "Object_read_raw self =
     (case git_object_id (obj self) of
        None \<Rightarrow> Inr PyNone
      | Some oid \<Rightarrow>
          (case Repository_read_raw (repo (py_repo self)) oid of
             Inl err \<Rightarrow> Inl (Error_set_py_str err (Object_get_sha self))
           | Inr raw \<Rightarrow>
               Inr (PyString_FromStringAndSize (rawobj_data raw) (length (rawobj_data raw)))))"

text \<open>\<open>answer\<close> is what the store answers to the write: an error, or the identifier.\<close>

definition Object_write ::
  "git_error + git_oid \<Rightarrow> (git_object, 'z) OBJECT_STRUCT_scheme
     \<Rightarrow> (py_error + pyobj) \<times> (git_object, 'z) OBJECT_STRUCT_scheme" where
  "Object_write answer self =
     (case git_object_write answer (obj self) of
        Inl err \<Rightarrow> (Inl (Error_set_py_str err (Object_get_sha self)), self)
      | Inr ob \<Rightarrow> (Inr PyNone, self\<lparr>obj := ob\<rparr>))"

text \<open>
  The initialisers fill the cell the interpreter has allocated (reference count 1, every
  field zero) and answer the struct as it then stands. \<open>name\<close> is the \<open>tp_name\<close> of the type
  of the new object, \<open>kwds\<close> the keyword arguments or \<open>NULL\<close>.
\<close>

definition Object_init_with_type ::
  "bool \<Rightarrow> string \<Rightarrow> git_otype \<Rightarrow> pyobj list \<Rightarrow> (string \<times> pyobj) list option
     \<Rightarrow> py_error + Object" where
  "Object_init_with_type mem name ty args kwds =
     (case kwds of
        Some _ \<Rightarrow> Inl (TypeError (name @ '' takes no keyword arugments''))
      | None \<Rightarrow>
          (case args of
             [rp] \<Rightarrow>
               (if \<not> PyObject_TypeCheck_Repository rp then
                  Inl (TypeError (''repo argument must be pygit2.Repository, not ''
                                  @ take 200 (tp_name rp)))
                else
                  (case py_base rp of
                     PyRepository r \<Rightarrow>
                       (case git_object_new mem (repo r) ty of
                          None \<Rightarrow> Inl MemoryError
                        | Some ob \<Rightarrow>
                            Inr \<lparr>ob_refcnt = 1, py_repo = r, own_obj = True, obj = ob\<rparr>)
                   | _ \<Rightarrow> Inl Abort))
           | _ \<Rightarrow> Inl (TypeError ''function takes exactly 1 argument'')))"

definition Commit_init ::
  "bool \<Rightarrow> pyobj list \<Rightarrow> (string \<times> pyobj) list option \<Rightarrow> py_error + Object" where
  "Commit_init mem args kwds =
     Object_init_with_type mem (py_type_name CommitType) GIT_OBJ_COMMIT args kwds"

definition Blob_init ::
  "bool \<Rightarrow> pyobj list \<Rightarrow> (string \<times> pyobj) list option \<Rightarrow> py_error + Object" where
  "Blob_init mem args kwds =
     Object_init_with_type mem (py_type_name BlobType) GIT_OBJ_BLOB args kwds"

section \<open>Tag\<close>

definition Tag_init ::
  "bool \<Rightarrow> pyobj list \<Rightarrow> (string \<times> pyobj) list option \<Rightarrow> py_error + Tag" where
  "Tag_init mem args kwds =
     (case Object_init_with_type mem (py_type_name TagType) GIT_OBJ_TAG args kwds of
        Inl e \<Rightarrow> Inl e
      | Inr s \<Rightarrow> Inr (cell_of s))"

definition Tag_get_target :: "bool \<Rightarrow> pyheap \<Rightarrow> Tag \<Rightarrow> py_error + (pyheap \<times> pyobj)" where
  "Tag_get_target mem h self =
     (case git_tag_target (obj self) of
        None \<Rightarrow> Inr (h, PyNone)
      | Some tgt \<Rightarrow> wrap_object mem h tgt (py_repo self))"

text \<open>
  \<open>self\<close> is the address of the tag's cell; the setter answers the outcome and the heap.
  After the type check the argument is used as an \<open>Object\<close>. A \<open>TreeEntry\<close> passes the
  check, and \<open>target->obj\<close> then reads past the end of its struct, after the references
  have been exchanged.
\<close>

definition Tag_set_target :: "pyheap \<Rightarrow> addr \<Rightarrow> pyobj \<Rightarrow> (py_error + unit) \<times> pyheap" where
  "Tag_set_target h self tgt =
     (if \<not> PyObject_TypeCheck_Object tgt then
        (Inl (TypeError (''target must be '' @ take 200 ''pygit2.Object'' @ '', not ''
                         @ take 200 (tp_name tgt))), h)
      else
        (let h1 = Py_XDECREF h (target (h ! self));
             h2 = h1[self := (h1 ! self)\<lparr>target := Some tgt\<rparr>];
             h3 = Py_INCREF h2 tgt
         in (case py_base tgt of
               PyInstance t a \<Rightarrow>
                 (Inr (),
                  h3[self := (h3 ! self)
                       \<lparr>obj := git_tag_set_target (obj (h3 ! self)) (obj (h3 ! a))\<rparr>])
             | _ \<Rightarrow> (Inl Abort, h3))))"

definition Tag_get_target_type :: "Tag \<Rightarrow> pyobj" where
  "Tag_get_target_type self =
     (case target self of
        None \<Rightarrow> PyNone
      | Some _ \<Rightarrow> PyInt_FromLong (git_otype_code (git_tag_type (obj self))))"

section \<open>Tree\<close>

definition Tree_len :: "Tree \<Rightarrow> 64 word" where
  "Tree_len self = git_tree_entrycount (obj self)"


definition wrap_tree_entry :: "bool \<Rightarrow> nat \<Rightarrow> Tree \<Rightarrow> py_error + TreeEntry" where
  "wrap_tree_entry mem e tr =
     (if \<not> mem then Inl MemoryError
      else Inr \<lparr>entry = e, tree = tr\<lparr>ob_refcnt := ob_refcnt tr + 1\<rparr>\<rparr>)"

definition Tree_getitem_by_name :: "bool \<Rightarrow> Tree \<Rightarrow> pyobj \<Rightarrow> py_error + TreeEntry" where
  "Tree_getitem_by_name mem self py_name =
     (case git_tree_entry_byname (obj self) (PyString_AS_STRING py_name) of
        None \<Rightarrow> Inl (KeyError py_name)
      | Some e \<Rightarrow> wrap_tree_entry mem e self)"

text \<open>
  \<open>(long)len\<close> keeps the 64 bits and reads them as signed; \<open>len + index\<close> is computed on 64
  bits; \<open>(int)index\<close> keeps the low 32 bits (\<open>scast\<close> to the narrower word).
\<close>

definition Tree_fix_index :: "Tree \<Rightarrow> pyobj \<Rightarrow> py_error + 32 word" where
  "Tree_fix_index self py_index =
     (case PyInt_AsLong py_index of
        Inl e \<Rightarrow> Inl e
      | Inr index \<Rightarrow>
          (let len = git_tree_entrycount (obj self);
               slen = len
           in if slen \<le>s index then Inl (IndexError py_index)
              else if index <s - slen then Inl (IndexError py_index)
              else Inr (scast (if index <s 0 then len + index else index))))"

definition Tree_getitem_by_index :: "bool \<Rightarrow> Tree \<Rightarrow> pyobj \<Rightarrow> py_error + TreeEntry" where
  "Tree_getitem_by_index mem self py_index =
     (case Tree_fix_index self py_index of
        Inl e \<Rightarrow> Inl e
      | Inr index \<Rightarrow>
          (case git_tree_entry_byindex (obj self) index of
             None \<Rightarrow> Inl (IndexError py_index)
           | Some e \<Rightarrow> wrap_tree_entry mem e self))"

definition Tree_getitem :: "bool \<Rightarrow> Tree \<Rightarrow> pyobj \<Rightarrow> py_error + TreeEntry" where
  "Tree_getitem mem self v =
     (if PyString_Check v then Tree_getitem_by_name mem self v
      else if PyInt_Check v then Tree_getitem_by_index mem self v
      else Inl (TypeError ''Expected int or str for tree index.''))"

text \<open>The mutators answer the outcome and the tree wrapper as it stands after the call.\<close>

definition Tree_delitem_by_name :: "Tree \<Rightarrow> pyobj \<Rightarrow> (py_error + unit) \<times> Tree" where
  "Tree_delitem_by_name self name =
     (case git_tree_remove_entry_byname (obj self) (PyString_AS_STRING name) of
        Inl err \<Rightarrow> (Inl (KeyError name), self)
      | Inr t \<Rightarrow> (Inr (), self\<lparr>obj := t\<rparr>))"

definition Tree_delitem_by_index :: "Tree \<Rightarrow> pyobj \<Rightarrow> (py_error + unit) \<times> Tree" where
  "Tree_delitem_by_index self py_index =
     (case Tree_fix_index self py_index of
        Inl e \<Rightarrow> (Inl e, self)
      | Inr index \<Rightarrow>
          (case git_tree_remove_entry_byindex (obj self) index of
             Inl err \<Rightarrow> (Inl (IndexError py_index), self)
           | Inr t \<Rightarrow> (Inr (), self\<lparr>obj := t\<rparr>)))"

text \<open>\<open>v\<close> is the assigned value, \<open>NULL\<close> (\<open>None\<close> here) when the item is deleted.\<close>

definition Tree_delitem :: "Tree \<Rightarrow> pyobj \<Rightarrow> pyobj option \<Rightarrow> (py_error + unit) \<times> Tree" where
  "Tree_delitem self name v =
     (case v of
        Some _ \<Rightarrow> (Inl (ValueError ''Cannot set TreeEntry directly; use add_entry.''), self)
      | None \<Rightarrow>
          (if PyString_Check name then Tree_delitem_by_name self name
           else if PyInt_Check name then Tree_delitem_by_index self name
           else (Inl (TypeError ''Expected int or str for tree index.''), self)))"





text \<open>
  The objects a store holds are complete: each is a commit, a tree, a blob or a tag, and a
  stored tag has a target, which is complete in turn.
\<close>

fun complete_object :: "git_object \<Rightarrow> bool" where
  "complete_object (GitObject GIT_OBJ_TAG oid (Some t)) = complete_object t"
| "complete_object (GitObject GIT_OBJ_TAG oid None) = False"
| "complete_object (GitObject ty oid tgt) = (ty = GIT_OBJ_COMMIT \<or> ty = GIT_OBJ_TREE \<or> ty = GIT_OBJ_BLOB)"

section \<open>Objects for the examples\<close>

definition empty_repository :: Repository where
  "empty_repository =
     \<lparr>repo = \<lparr>odb_objects = (\<lambda>oid. None), odb_read = (\<lambda>oid. Inl GIT_ENOTFOUND)\<rparr>\<rparr>"

definition blob_repository :: Repository where
  "blob_repository =
     \<lparr>repo = \<lparr>odb_objects = (\<lambda>oid. Some (GitObject GIT_OBJ_BLOB None None)),
              odb_read = (\<lambda>oid. Inr \<lparr>rawobj_type = GIT_OBJ_BLOB, rawobj_data = ''data''\<rparr>)\<rparr>\<rparr>"

definition blob0 :: Object where
  "blob0 =
     \<lparr>ob_refcnt = 1, py_repo = empty_repository, own_obj = True,
      obj = GitObject GIT_OBJ_BLOB None None\<rparr>"

definition tag0 :: Tag where
  "tag0 =
     \<lparr>ob_refcnt = 1, py_repo = empty_repository, own_obj = True,
      obj = GitObject GIT_OBJ_TAG None None, target = None\<rparr>"

definition heap0 :: pyheap where
  "heap0 = [cell_of blob0, tag0]"

definition heap1 :: pyheap where
  "heap1 =
     [(cell_of blob0)\<lparr>ob_refcnt := 2\<rparr>,
      tag0\<lparr>obj := GitObject GIT_OBJ_TAG None (Some (GitObject GIT_OBJ_BLOB None None)),
           target := Some (PyInstance BlobType 0)\<rparr>]"

definition heap2 :: pyheap where
  "heap2 = heap1 @ [new_cell (GitObject GIT_OBJ_BLOB None None) empty_repository]"

definition zero_oid :: git_oid where
  "zero_oid = Abs_git_oid (replicate 20 0)"

definition file_entry :: "string \<Rightarrow> git_tree_entry" where
  "file_entry nm = \<lparr>entry_attr = 0x81A4, entry_name = nm, entry_id = zero_oid\<rparr>"

definition tree_of :: "git_tree_entry list \<Rightarrow> Tree" where
  "tree_of es =
     \<lparr>ob_refcnt = 1, py_repo = empty_repository, own_obj = True, obj = \<lparr>entries = es\<rparr>\<rparr>"

definition tree_abc :: Tree where
  "tree_abc = tree_of [file_entry ''a'', file_entry ''b'', file_entry ''c'']"

definition tree_entry0 :: TreeEntry where
  "tree_entry0 = \<lparr>entry = 0, tree = tree_abc\<lparr>ob_refcnt := 2\<rparr>\<rparr>"

definition huge_tree :: Tree where
  "huge_tree = tree_of (replicate (2 ^ 31 + 1) (file_entry ''a''))"

section \<open>Facts about the codec\<close>

lemma hex_char_table:
  "\<forall>c::char. (case from_hex c of
                 None \<Rightarrow> \<not> is_hex_char c
               | Some v \<Rightarrow> is_hex_char c \<and> v < 16 \<and> to_hex v = tolower c)"
  by code_simp

lemma from_hex_Some:
  assumes "from_hex c = Some v"
  shows "v < 16" and "to_hex v = tolower c" and "is_hex_char c"
  using hex_char_table [rule_format, of c] assms by simp_all

lemma from_hex_None: "from_hex c = None \<Longrightarrow> \<not> is_hex_char c"
  using hex_char_table [rule_format, of c] by simp

lemma is_hex_char_from_hex: "is_hex_char c \<Longrightarrow> \<exists>v. from_hex c = Some v"
  using from_hex_None [of c] by (cases "from_hex c") auto

lemma to_hex_lower: "v < 16 \<Longrightarrow> is_lower_hex_char (to_hex v)"
proof -
  have "\<forall>v \<in> set [0 ..< 16]. is_lower_hex_char (to_hex v)"
    by code_simp
  then show "v < 16 \<Longrightarrow> is_lower_hex_char (to_hex v)"
    by simp
qed

lemma fmt_byte_of_nibbles:
  assumes "h < 16" and "l < 16"
  shows "fmt_byte (of_nat (16 * h + l)) = [to_hex h, to_hex l]"
proof -
  have "unat (of_nat (16 * h + l) :: 8 word) = (16 * h + l) mod 2 ^ LENGTH(8)"
    by (rule unat_of_nat)
  also have "\<dots> = 16 * h + l"
    using assms by simp
  finally show ?thesis
    using assms by (simp add: fmt_byte_def)
qed

lemma hex_to_bytes_total:
  "list_all is_hex_char s \<Longrightarrow> even (length s) \<Longrightarrow>
     \<exists>bs. hex_to_bytes s = Some bs \<and> 2 * length bs = length s
          \<and> concat (map fmt_byte bs) = map tolower s"
proof (induction s rule: hex_to_bytes.induct)
  case 1
  then show ?case by simp
next
  case (2 a)
  then show ?case by simp
next
  case (3 a b rest)
  from 3 obtain h l where h: "from_hex a = Some h" and l: "from_hex b = Some l"
    using is_hex_char_from_hex [of a] is_hex_char_from_hex [of b] by auto
  from 3 h l obtain bs where bs: "hex_to_bytes rest = Some bs"
      "2 * length bs = length rest" "concat (map fmt_byte bs) = map tolower rest"
    by auto
  have "fmt_byte (of_nat (16 * h + l)) = [tolower a, tolower b]"
    using fmt_byte_of_nibbles [of h l] from_hex_Some [OF h] from_hex_Some [OF l] by simp
  with h l bs show ?case by simp
qed

lemma hex_to_bytes_hex:
  "hex_to_bytes s = Some bs \<Longrightarrow> list_all is_hex_char s \<and> 2 * length bs = length s"
proof (induction s arbitrary: bs rule: hex_to_bytes.induct)
  case 1
  then show ?case by simp
next
  case (2 a)
  then show ?case by simp
next
  case (3 a b rest)
  then show ?case
    by (auto split: option.splits dest: from_hex_Some(3))
qed

lemma git_oid_mkstr_ok_iff: "(\<exists>oid. git_oid_mkstr hex = Inr oid) \<longleftrightarrow> is_hex_sha hex"
proof
  assume "\<exists>oid. git_oid_mkstr hex = Inr oid"
  then show "is_hex_sha hex"
    by (auto simp: git_oid_mkstr_def is_hex_sha_def GIT_OID_HEXSZ_def
        split: if_splits option.splits dest: hex_to_bytes_hex)
next
  assume "is_hex_sha hex"
  then show "\<exists>oid. git_oid_mkstr hex = Inr oid"
    using hex_to_bytes_total [of hex]
    by (auto simp: git_oid_mkstr_def is_hex_sha_def GIT_OID_HEXSZ_def)
qed

lemma git_oid_mkstr_error: "git_oid_mkstr hex = Inl err \<Longrightarrow> err = GIT_ENOTOID"
  by (auto simp: git_oid_mkstr_def split: if_splits option.splits)

lemma git_oid_fmt_mkstr:
  assumes "is_hex_sha hex"
  shows "\<exists>oid. git_oid_mkstr hex = Inr oid \<and> git_oid_fmt oid = map tolower hex"
proof -
  from assms obtain bs where bs: "hex_to_bytes hex = Some bs" "2 * length bs = length hex"
      "concat (map fmt_byte bs) = map tolower hex"
    using hex_to_bytes_total [of hex] by (auto simp: is_hex_sha_def)
  with assms have "length bs = 20"
    by (simp add: is_hex_sha_def)
  then have "oid_bytes (Abs_git_oid bs) = bs"
    by (simp add: Abs_git_oid_inverse)
  with bs assms show ?thesis
    by (simp add: git_oid_mkstr_def git_oid_fmt_def is_hex_sha_def GIT_OID_HEXSZ_def)
qed

lemma fmt_byte_lower: "list_all is_lower_hex_char (fmt_byte b)"
proof -
  have "unat b < 2 ^ LENGTH(8)"
    by (rule unsigned_less)
  then have "unat b div 16 < 16" and "unat b mod 16 < 16"
    by simp_all
  then show ?thesis
    by (simp add: fmt_byte_def to_hex_lower)
qed

lemma fmt_bytes_shape:
  "length (concat (map fmt_byte bs)) = 2 * length bs
     \<and> list_all is_lower_hex_char (concat (map fmt_byte bs))"
proof (induction bs)
  case Nil
  then show ?case by simp
next
  case (Cons b bs)
  have "length (fmt_byte b) = 2"
    by (simp add: fmt_byte_def)
  with Cons fmt_byte_lower [of b] show ?case
    by simp
qed

lemma c_str_hex: "list_all is_hex_char s \<Longrightarrow> c_str s = s"
proof -
  assume "list_all is_hex_char s"
  moreover have "\<not> is_hex_char (CHR 0x00)"
    by (simp add: is_hex_char_def)
  ultimately have "\<forall>c \<in> set s. c \<noteq> CHR 0x00"
    by (auto simp: list_all_iff)
  then show "c_str s = s"
    by (simp add: c_str_def takeWhile_eq_all_conv)
qed

lemma py_str_to_git_oid_hex:
  "is_hex_sha s \<Longrightarrow> py_str_to_git_oid (PyString s) = git_oid_mkstr s"
  by (simp add: py_str_to_git_oid_def PyString_AsString_def is_hex_sha_def c_str_hex)

lemma git_oid_fmt_shape:
  "length (git_oid_fmt oid) = 40 \<and> list_all is_lower_hex_char (git_oid_fmt oid)"
proof -
  have "length (oid_bytes oid) = 20"
    using oid_bytes [of oid] by simp
  then show ?thesis
    using fmt_bytes_shape [of "oid_bytes oid"] by (simp add: git_oid_fmt_def)
qed

lemma Object_get_sha_Some:
  "git_object_id (obj self) = Some oid \<Longrightarrow> Object_get_sha self = PyString (git_oid_fmt oid)"
  using git_oid_fmt_shape [of oid]
  by (simp add: Object_get_sha_def PyString_FromStringAndSize_def GIT_OID_HEXSZ_def)

section \<open>The identifier codec\<close>

text \<open>
  C2. For every string \<open>s\<close> of exactly 40 hexadecimal characters, in any letter case,
  parsing \<open>s\<close> succeeds and formatting the identifier gives \<open>s\<close> in lowercase, also through
  the \<open>sha\<close> getter of an object that carries the identifier; and the formatted text of any
  identifier is exactly 40 characters, each a lowercase hexadecimal digit.
\<close>

theorem format_parse_lowercase:
  assumes "is_hex_sha s"
  shows "(\<exists>oid. py_str_to_git_oid (PyString s) = Inr oid
            \<and> git_oid_fmt oid = map tolower s
            \<and> Object_get_sha (self\<lparr>obj := GitObject ty (Some oid) tg\<rparr>)
                = PyString (map tolower s))
         \<and> length (git_oid_fmt x) = 40
         \<and> list_all is_lower_hex_char (git_oid_fmt x)"
proof -
  from assms obtain oid where oid: "git_oid_mkstr s = Inr oid" "git_oid_fmt oid = map tolower s"
    using git_oid_fmt_mkstr [of s] by auto
  have "Object_get_sha (self\<lparr>obj := GitObject ty (Some oid) tg\<rparr>) = PyString (git_oid_fmt oid)"
    by (rule Object_get_sha_Some) simp
  with oid assms show ?thesis
    using git_oid_fmt_shape [of x] by (simp add: py_str_to_git_oid_hex)
qed

theorem format_parse_lowercase_witness:
  "is_hex_sha ''0123456789abcdefABCDEF0123456789aBcDeF00''
   \<and> (\<exists>oid. py_str_to_git_oid (PyString ''0123456789abcdefABCDEF0123456789aBcDeF00'') = Inr oid
         \<and> git_oid_fmt oid = ''0123456789abcdefabcdef0123456789abcdef00'')"
proof -
  have h: "is_hex_sha ''0123456789abcdefABCDEF0123456789aBcDeF00''"
    by (simp add: is_hex_sha_def is_hex_char_def)
  have l: "map tolower ''0123456789abcdefABCDEF0123456789aBcDeF00''
             = ''0123456789abcdefabcdef0123456789abcdef00''"
    by code_simp
  have "\<exists>oid. py_str_to_git_oid (PyString ''0123456789abcdefABCDEF0123456789aBcDeF00'') = Inr oid
          \<and> git_oid_fmt oid = map tolower ''0123456789abcdefABCDEF0123456789aBcDeF00''"
    using format_parse_lowercase [OF h] by blast
  with h l show ?thesis
    by simp
qed

lemma py_str_to_git_oid_error: "py_str_to_git_oid v = Inl err \<Longrightarrow> err = GIT_ENOTOID"
  by (auto simp: py_str_to_git_oid_def split: sum.splits dest: git_oid_mkstr_error)

lemma PyString_AsString_Inr:
  "PyString_AsString v = Inr hex \<longleftrightarrow>
     (\<exists>t. (py_base v = PyString t \<or> (\<exists>u. py_base v = PyUnicode u \<and> default_encode u = Some t))
          \<and> hex = c_str t)"
  by (cases "py_base v") (auto simp: PyString_AsString_def split: option.splits)

lemma py_str_to_git_oid_ok_iff:
  "(\<exists>oid. py_str_to_git_oid v = Inr oid) \<longleftrightarrow>
     (\<exists>t. (py_base v = PyString t \<or> (\<exists>u. py_base v = PyUnicode u \<and> default_encode u = Some t))
          \<and> is_hex_sha (c_str t))"
proof (cases "PyString_AsString v")
  case (Inl e)
  then have "\<not> (\<exists>hex. PyString_AsString v = Inr hex)"
    by simp
  then have "\<not> (\<exists>t. (py_base v = PyString t
                    \<or> (\<exists>u. py_base v = PyUnicode u \<and> default_encode u = Some t)))"
    unfolding PyString_AsString_Inr by blast
  with Inl show ?thesis
    by (auto simp: py_str_to_git_oid_def)
next
  case (Inr hex)
  then obtain t where t: "py_base v = PyString t
      \<or> (\<exists>u. py_base v = PyUnicode u \<and> default_encode u = Some t)" "hex = c_str t"
    unfolding PyString_AsString_Inr by blast
  have "(\<exists>oid. py_str_to_git_oid v = Inr oid) \<longleftrightarrow> is_hex_sha hex"
    using Inr git_oid_mkstr_ok_iff [of hex] by (simp add: py_str_to_git_oid_def)
  with t show ?thesis
    by auto
qed

lemma py_str_to_git_oid_str_iff:
  "(\<exists>oid. py_str_to_git_oid (PyString s) = Inr oid) \<longleftrightarrow> is_hex_sha (c_str s)"
  unfolding py_str_to_git_oid_ok_iff by simp

lemma py_str_to_git_oid_fails:
  "\<not> (\<exists>oid. py_str_to_git_oid v = Inr oid) \<Longrightarrow> py_str_to_git_oid v = Inl GIT_ENOTOID"
  using py_str_to_git_oid_error [of v] by (cases "py_str_to_git_oid v") auto

lemma to_hex_not_nul: "v < 16 \<Longrightarrow> to_hex v \<noteq> CHR 0x00"
  using to_hex_lower [of v] by (auto simp: is_lower_hex_char_def)

lemma repr_char_no_nul:
  assumes "quote \<noteq> CHR 0x00"
  shows "CHR 0x00 \<notin> set (repr_char quote c)"
proof -
  have "of_char c < (256::nat)"
    by (rule nat_of_char_less_256)
  then have d: "of_char c div 16 < (16::nat)"
    by arith
  have z: "c = CHR 0x00 \<Longrightarrow> of_char c = (0::nat)"
    by simp
  show ?thesis
    using assms d z to_hex_not_nul [of "of_char c div 16"] to_hex_not_nul [of "of_char c mod 16"]
    by (auto simp: repr_char_def Let_def)
qed

lemma string_repr_no_nul: "CHR 0x00 \<notin> set (string_repr s)"
  by (auto simp: string_repr_def Let_def dest!: repr_char_no_nul [THEN notE, rotated])

lemma Error_set_py_str_ENOTOID_str:
  "Error_set_py_str GIT_ENOTOID (PyString s) = ValueError (''Invalid hex SHA: '' @ string_repr s)"
proof -
  have "c_str (string_repr s) = string_repr s"
    using string_repr_no_nul [of s] by (auto simp: c_str_def takeWhile_eq_all_conv)
  then show ?thesis
    by (simp add: Error_set_py_str_def PyString_Check_def PyObject_Repr_def
        PyString_AS_STRING_def)
qed

lemma default_encode_ascii:
  "list_all (\<lambda>c. of_char c < (128::nat)) s \<Longrightarrow> default_encode (map of_char s) = Some s"
  by (simp add: default_encode_def list_all_iff map_idI)


section \<open>Identifier parsing\<close>

text \<open>
  C3, as stated: parsing fails whenever the input is not exactly 40 hexadecimal
  characters. It does not: a text of 43 characters, 40 hexadecimal digits followed by a
  NUL byte and two more characters, is parsed, since the library receives a C string.
\<close>

theorem parse_accepts_text_after_nul:
  "\<not> is_hex_sha (''0123456789abcdef0123456789abcdef01234567'' @ [CHR 0x00, CHR ''x'', CHR ''y''])
   \<and> \<not> isl (py_str_to_git_oid
              (PyString (''0123456789abcdef0123456789abcdef01234567'' @ [CHR 0x00, CHR ''x'', CHR ''y''])))"
proof -
  have c: "c_str (''0123456789abcdef0123456789abcdef01234567'' @ [CHR 0x00, CHR ''x'', CHR ''y''])
             = ''0123456789abcdef0123456789abcdef01234567''"
    by (simp add: c_str_def)
  have h: "is_hex_sha ''0123456789abcdef0123456789abcdef01234567''"
    by (simp add: is_hex_sha_def is_hex_char_def)
  have "\<exists>oid. py_str_to_git_oid
              (PyString (''0123456789abcdef0123456789abcdef01234567'' @ [CHR 0x00, CHR ''x'', CHR ''y'']))
            = Inr oid"
    unfolding py_str_to_git_oid_str_iff using c h by simp
  then show ?thesis
    by (auto simp: is_hex_sha_def)
qed

text \<open>
  C3, amended. Parsing succeeds exactly on a \<open>str\<close>, or on a \<open>unicode\<close> that the default
  encoding encodes, whose bytes before the first NUL are 40 hexadecimal characters
  (instances of subclasses included). Every other input fails, and every failure is
  \<open>GIT_ENOTOID\<close>. The lookup of a repository reports the failure of an input that
  passes \<open>PyString_Check\<close> as a value error that carries what \<open>repr\<close> answers for the
  input, for a \<open>str\<close> the quoted text; and the failure of every other input, a \<open>unicode\<close>
  included, as a type error that names the type of the input. So a \<open>str\<close> without a NUL
  byte that is not exactly 40 hexadecimal characters fails with the value error.
\<close>

theorem parse_failure_kinds:
  "((\<exists>oid. py_str_to_git_oid v = Inr oid) \<longleftrightarrow>
      (\<exists>t. (py_base v = PyString t \<or> (\<exists>u. py_base v = PyUnicode u \<and> default_encode u = Some t))
           \<and> is_hex_sha (c_str t)))
   \<and> (py_str_to_git_oid v = Inl err \<longrightarrow> err = GIT_ENOTOID)
   \<and> (isl (py_str_to_git_oid v) \<and> \<not> PyString_Check v \<longrightarrow>
        Repository_getitem mem h self v
          = Inl (TypeError (''Hex SHA must be str, not '' @ take 200 (tp_name v))))
   \<and> (isl (py_str_to_git_oid v) \<and> PyString_Check v \<longrightarrow>
        Repository_getitem mem h self v
          = Inl (ValueError (''Invalid hex SHA: ''
                   @ (case PyObject_Repr v of
                        None \<Rightarrow> ''<error in __repr__>''
                      | Some r \<Rightarrow> PyString_AS_STRING r))))
   \<and> (\<not> is_hex_sha (c_str s) \<longrightarrow>
        py_str_to_git_oid (PyString s) = Inl GIT_ENOTOID
        \<and> Repository_getitem mem h self (PyString s)
            = Inl (ValueError (''Invalid hex SHA: '' @ string_repr s)))
   \<and> (CHR 0x00 \<notin> set s \<and> \<not> is_hex_sha s \<longrightarrow>
        Repository_getitem mem h self (PyString s)
            = Inl (ValueError (''Invalid hex SHA: '' @ string_repr s)))
   \<and> (\<not> (\<exists>t. default_encode u = Some t \<and> is_hex_sha (c_str t)) \<longrightarrow>
        py_str_to_git_oid (PyUnicode u) = Inl GIT_ENOTOID
        \<and> Repository_getitem mem h self (PyUnicode u)
            = Inl (TypeError ''Hex SHA must be str, not unicode''))"
proof -
  have a: "(\<exists>oid. py_str_to_git_oid v = Inr oid) \<longleftrightarrow>
      (\<exists>t. (py_base v = PyString t \<or> (\<exists>u. py_base v = PyUnicode u \<and> default_encode u = Some t))
           \<and> is_hex_sha (c_str t))"
    by (rule py_str_to_git_oid_ok_iff)
  have b: "err = GIT_ENOTOID" if "py_str_to_git_oid v = Inl err"
    using that by (rule py_str_to_git_oid_error)
  have f: "py_str_to_git_oid v = Inl GIT_ENOTOID" if "isl (py_str_to_git_oid v)"
    using that py_str_to_git_oid_error [of v] by (cases "py_str_to_git_oid v") auto
  have c: "Repository_getitem mem h self v
          = Inl (TypeError (''Hex SHA must be str, not '' @ take 200 (tp_name v)))"
    if "isl (py_str_to_git_oid v)" "\<not> PyString_Check v"
    using f [OF that(1)] that(2) by (simp add: Repository_getitem_def Error_set_py_str_def)
  have d: "Repository_getitem mem h self v
          = Inl (ValueError (''Invalid hex SHA: ''
                   @ (case PyObject_Repr v of
                        None \<Rightarrow> ''<error in __repr__>''
                      | Some r \<Rightarrow> PyString_AS_STRING r)))"
    if "isl (py_str_to_git_oid v)" "PyString_Check v"
    using f [OF that(1)] that(2)
    by (simp add: Repository_getitem_def Error_set_py_str_def split: option.splits)
  have e: "py_str_to_git_oid (PyString s) = Inl GIT_ENOTOID
        \<and> Repository_getitem mem h self (PyString s)
            = Inl (ValueError (''Invalid hex SHA: '' @ string_repr s))"
    if "\<not> is_hex_sha (c_str s)"
  proof -
    from that have "py_str_to_git_oid (PyString s) = Inl GIT_ENOTOID"
      by (intro py_str_to_git_oid_fails) (simp add: py_str_to_git_oid_str_iff)
    then show ?thesis
      by (simp add: Repository_getitem_def Error_set_py_str_ENOTOID_str)
  qed
  have g: "c_str s = s" if "CHR 0x00 \<notin> set s"
    using that by (auto simp: c_str_def takeWhile_eq_all_conv)
  have i: "py_str_to_git_oid (PyUnicode u) = Inl GIT_ENOTOID
        \<and> Repository_getitem mem h self (PyUnicode u)
            = Inl (TypeError ''Hex SHA must be str, not unicode'')"
    if "\<not> (\<exists>t. default_encode u = Some t \<and> is_hex_sha (c_str t))"
  proof -
    from that have "py_str_to_git_oid (PyUnicode u) = Inl GIT_ENOTOID"
      by (intro py_str_to_git_oid_fails) (simp add: py_str_to_git_oid_ok_iff)
    then show ?thesis
      by (simp add: Repository_getitem_def Error_set_py_str_def PyString_Check_def tp_name_def)
  qed
  from a b c d e g i show ?thesis
    by (simp (no_asm_simp))
qed

theorem parse_failure_kinds_witness:
  "py_str_to_git_oid (PyInt 5) = Inl GIT_ENOTOID
   \<and> Repository_getitem True [] empty_repository (PyInt 5)
       = Inl (TypeError ''Hex SHA must be str, not int'')
   \<and> py_str_to_git_oid (PyString ''0123456789abcdef0123456789abcdef0123456g'') = Inl GIT_ENOTOID
   \<and> Repository_getitem True [] empty_repository (PyString ''xyz'')
       = Inl (ValueError (''Invalid hex SHA: '' @ [CHR 0x27] @ ''xyz'' @ [CHR 0x27]))
   \<and> Repository_getitem True [] empty_repository (PyUnicode [120, 121, 122])
       = Inl (TypeError ''Hex SHA must be str, not unicode'')
   \<and> \<not> isl (py_str_to_git_oid
              (PyUnicode (map of_char ''0123456789abcdef0123456789abcdef01234567'')))"
proof -
  have p: "isl (py_str_to_git_oid (PyInt 5)) \<and> \<not> PyString_Check (PyInt 5)"
    by (simp add: PyString_Check_def py_str_to_git_oid_def PyString_AsString_def)
  have q: "\<not> is_hex_sha (c_str ''0123456789abcdef0123456789abcdef0123456g'')"
    by (simp add: is_hex_sha_def is_hex_char_def c_str_def)
  have r: "CHR 0x00 \<notin> set ''xyz'' \<and> \<not> is_hex_sha ''xyz''"
    by (simp add: is_hex_sha_def)
  have t: "string_repr ''xyz'' = [CHR 0x27] @ ''xyz'' @ [CHR 0x27]"
    by (simp add: string_repr_def repr_char_def Let_def)
  have u: "\<not> (\<exists>t. default_encode [120, 121, 122] = Some t \<and> is_hex_sha (c_str t))"
    by (simp add: default_encode_def is_hex_sha_def c_str_def)
  have w: "default_encode (map of_char ''0123456789abcdef0123456789abcdef01234567'')
             = Some ''0123456789abcdef0123456789abcdef01234567''"
    by (rule default_encode_ascii) simp
  have x: "is_hex_sha (c_str ''0123456789abcdef0123456789abcdef01234567'')"
    by (simp add: is_hex_sha_def is_hex_char_def c_str_def)
  have y: "py_base (PyUnicode (map of_char ''0123456789abcdef0123456789abcdef01234567''))
             = PyUnicode (map of_char ''0123456789abcdef0123456789abcdef01234567'')"
    by (rule py_base.simps)
  have "\<exists>oid. py_str_to_git_oid
                (PyUnicode (map of_char ''0123456789abcdef0123456789abcdef01234567'')) = Inr oid"
    using w x y
      parse_failure_kinds [of "PyUnicode (map of_char ''0123456789abcdef0123456789abcdef01234567'')"]
    by blast
  then have z: "\<not> isl (py_str_to_git_oid
              (PyUnicode (map of_char ''0123456789abcdef0123456789abcdef01234567'')))"
    by auto
  have "py_str_to_git_oid (PyInt 5) = Inl GIT_ENOTOID
   \<and> Repository_getitem True [] empty_repository (PyInt 5)
       = Inl (TypeError ''Hex SHA must be str, not int'')
   \<and> py_str_to_git_oid (PyString ''0123456789abcdef0123456789abcdef0123456g'') = Inl GIT_ENOTOID
   \<and> Repository_getitem True [] empty_repository (PyString ''xyz'')
       = Inl (ValueError (''Invalid hex SHA: '' @ [CHR 0x27] @ ''xyz'' @ [CHR 0x27]))
   \<and> Repository_getitem True [] empty_repository (PyUnicode [120, 121, 122])
       = Inl (TypeError ''Hex SHA must be str, not unicode'')"
    using p q r t u
      parse_failure_kinds [of "PyInt 5" _ True "[]" empty_repository
        "''0123456789abcdef0123456789abcdef0123456g''" "[120, 121, 122]"]
      parse_failure_kinds [of "PyInt 5" _ True "[]" empty_repository "''xyz''" "[120, 121, 122]"]
    by (cases "py_str_to_git_oid (PyInt 5)") (simp_all add: tp_name_def)
  with z show ?thesis
    by simp
qed
section \<open>Facts about trees\<close>

lemma sint_len:
  fixes n :: nat
  assumes "n < 2 ^ 31"
  shows "sint (of_nat n :: 64 word) = int n"
proof -
  have "- (2 ^ 63) \<le> int n" and "int n < 2 ^ 63"
    using assms by simp_all
  then show ?thesis
    by (simp add: signed_of_nat signed_take_bit_int_eq_self)
qed

lemma sint_neg_len:
  fixes n :: nat
  assumes "n < 2 ^ 31"
  shows "sint (- (of_nat n :: 64 word)) = - int n"
proof -
  have "- (2 ^ 63) \<le> - int n" and "- int n < 2 ^ 63"
    using assms by simp_all
  then show ?thesis
    using sint_len [OF assms] by (simp add: sint_word_minus signed_take_bit_int_eq_self)
qed

lemma sint_len_plus:
  fixes n :: nat and i :: "64 word"
  assumes "n < 2 ^ 31" and "sint i < 0" and "- int n \<le> sint i"
  shows "sint (of_nat n + i) = int n + sint i"
proof -
  have "- (2 ^ 63) \<le> int n + sint i" and "int n + sint i < 2 ^ 63"
    using assms by simp_all
  then show ?thesis
    using sint_len [OF assms(1)] by (simp add: sint_word_add signed_take_bit_int_eq_self)
qed

lemma sint_narrow:
  fixes w :: "64 word"
  assumes "- (2 ^ 31) \<le> sint w" and "sint w < 2 ^ 31"
  shows "sint (scast w :: 32 word) = sint w"
  using assms by (simp add: signed_scast_eq signed_take_bit_int_eq_self)

lemma Tree_fix_index_outside:
  assumes "length (entries (obj self)) < 2 ^ 31"
    and "\<not> (- int (length (entries (obj self))) \<le> sint i
            \<and> sint i < int (length (entries (obj self))))"
  shows "Tree_fix_index self (PyInt i) = Inl (IndexError (PyInt i))"
  using assms sint_len [OF assms(1)] sint_neg_len [OF assms(1)]
  by (auto simp: Tree_fix_index_def PyInt_AsLong_def git_tree_entrycount_def Let_def
      word_sle_eq word_sless_alt)

lemma Tree_fix_index_inside:
  assumes "length (entries (obj self)) < 2 ^ 31"
    and "- int (length (entries (obj self))) \<le> sint i"
    and "sint i < int (length (entries (obj self)))"
  shows "\<exists>w. Tree_fix_index self (PyInt i) = Inr w
           \<and> sint w = (if sint i < 0 then int (length (entries (obj self))) + sint i else sint i)"
proof (cases "sint i < 0")
  case True
  have s: "sint (of_nat (length (entries (obj self))) + i)
             = int (length (entries (obj self))) + sint i"
    using assms True by (intro sint_len_plus) simp_all
  have "sint (scast (of_nat (length (entries (obj self))) + i) :: 32 word)
          = sint (of_nat (length (entries (obj self))) + i)"
    using assms True s by (intro sint_narrow) simp_all
  with s True assms sint_len [OF assms(1)] sint_neg_len [OF assms(1)] show ?thesis
    by (simp add: Tree_fix_index_def PyInt_AsLong_def git_tree_entrycount_def Let_def
        word_sle_eq word_sless_alt)
next
  case False
  have "sint (scast i :: 32 word) = sint i"
    using assms False by (intro sint_narrow) simp_all
  with False assms sint_len [OF assms(1)] sint_neg_len [OF assms(1)] show ?thesis
    by (simp add: Tree_fix_index_def PyInt_AsLong_def git_tree_entrycount_def Let_def
        word_sle_eq word_sless_alt)
qed

lemma Tree_getitem_by_index_small:
  assumes "length (entries (obj self)) < 2 ^ 31"
  shows "Tree_getitem_by_index mem self (PyInt i) =
     (if - int (length (entries (obj self))) \<le> sint i
         \<and> sint i < int (length (entries (obj self)))
      then wrap_tree_entry mem
             (nat (if sint i < 0 then int (length (entries (obj self))) + sint i else sint i))
             self
      else Inl (IndexError (PyInt i)))"
proof (cases "- int (length (entries (obj self))) \<le> sint i
         \<and> sint i < int (length (entries (obj self)))")
  case True
  then obtain w where w: "Tree_fix_index self (PyInt i) = Inr w"
      "sint w = (if sint i < 0 then int (length (entries (obj self))) + sint i else sint i)"
    using Tree_fix_index_inside [OF assms, of i] by auto
  with True have "git_tree_entry_byindex (obj self) w = Some (nat (sint w))"
    by (auto simp: git_tree_entry_byindex_def)
  with w True show ?thesis
    by (simp add: Tree_getitem_by_index_def)
next
  case False
  then have "Tree_fix_index self (PyInt i) = Inl (IndexError (PyInt i))"
    by (intro Tree_fix_index_outside [OF assms])
  with False show ?thesis
    by (simp only: Tree_getitem_by_index_def if_False sum.case)
qed

section \<open>Indexing a tree\<close>

text \<open>
  C1, as stated: for every tree of length \<open>n\<close>, indexing by an integer \<open>i\<close> succeeds exactly
  when \<open>i\<close> lies in \<open>[-n, n-1]\<close>. It does not for a tree of \<open>2^31 + 1\<close> entries and the index
  \<open>2^31\<close>: the index is in range, \<open>Tree_fix_index\<close> returns it as an \<open>int\<close>, the library is
  asked for a negative position and the lookup ends in an index error.
\<close>

theorem index_beyond_int_fails:
  "- int (length (entries (obj huge_tree))) \<le> sint (2147483648 :: 64 word)
   \<and> sint (2147483648 :: 64 word) \<le> int (length (entries (obj huge_tree))) - 1
   \<and> Tree_getitem True huge_tree (PyInt 2147483648) = Inl (IndexError (PyInt 2147483648))"
proof -
  have n: "length (entries (obj huge_tree)) = 2147483649"
    by (simp add: huge_tree_def tree_of_def)
  have f: "Tree_fix_index huge_tree (PyInt 2147483648) = Inr (scast (2147483648 :: 64 word))"
    by (simp add: Tree_fix_index_def PyInt_AsLong_def git_tree_entrycount_def n Let_def
        word_sle_eq word_sless_alt)
  have "sint (scast (2147483648 :: 64 word) :: 32 word) = - 2147483648"
    by (simp add: signed_scast_eq)
  then have "git_tree_entry_byindex (obj huge_tree) (scast (2147483648 :: 64 word)) = None"
    by (simp add: git_tree_entry_byindex_def)
  with f have "Tree_getitem True huge_tree (PyInt 2147483648)
                 = Inl (IndexError (PyInt 2147483648))"
    by (simp add: Tree_getitem_def PyString_Check_def PyInt_Check_def Tree_getitem_by_index_def)
  with n show ?thesis
    by simp
qed

text \<open>
  C1, amended: for every tree of length \<open>n\<close> below \<open>2^31\<close> and every Python \<open>int\<close> \<open>i\<close>, indexing
  finds an entry exactly when \<open>i\<close> lies in \<open>[-n, n-1]\<close>: it then answers a wrapper of the
  entry in slot \<open>i\<close>, or \<open>n + i\<close> for a negative \<open>i\<close>, that refers to the tree (a memory error
  when the wrapper cannot be allocated), so that \<open>tree[-1]\<close> and \<open>tree[n-1]\<close> are the same
  entry; any other \<open>i\<close> fails with an index error that carries \<open>i\<close>.
\<close>

theorem tree_index_range:
  assumes "length (entries (obj self)) < 2 ^ 31"
  shows "(- int (length (entries (obj self))) \<le> sint i
            \<and> sint i \<le> int (length (entries (obj self))) - 1 \<longrightarrow>
          Tree_getitem mem self (PyInt i) =
            (if mem then
               Inr \<lparr>entry = nat (if sint i < 0 then int (length (entries (obj self))) + sint i
                                  else sint i),
                    tree = self\<lparr>ob_refcnt := ob_refcnt self + 1\<rparr>\<rparr>
             else Inl MemoryError))
         \<and> (\<not> (- int (length (entries (obj self))) \<le> sint i
                \<and> sint i \<le> int (length (entries (obj self))) - 1) \<longrightarrow>
              Tree_getitem mem self (PyInt i) = Inl (IndexError (PyInt i)))
         \<and> (0 < length (entries (obj self)) \<longrightarrow>
              Tree_getitem mem self (PyInt (- 1))
                = Tree_getitem mem self (PyInt (of_nat (length (entries (obj self)) - 1))))"
proof -
  have g: "Tree_getitem mem self (PyInt j) = Tree_getitem_by_index mem self (PyInt j)" for j
    by (simp add: Tree_getitem_def PyString_Check_def PyInt_Check_def)
  have last: "Tree_getitem mem self (PyInt (- 1))
                = Tree_getitem mem self (PyInt (of_nat (length (entries (obj self)) - 1)))"
    if "0 < length (entries (obj self))"
  proof -
    have "length (entries (obj self)) - 1 < 2 ^ 31"
      using assms by simp
    then have s: "sint (of_nat (length (entries (obj self)) - 1) :: 64 word)
                 = int (length (entries (obj self)) - 1)"
      by (rule sint_len)
    have m: "sint (- 1 :: 64 word) = - 1"
      by simp
    have "- int (length (entries (obj self))) \<le> sint (- 1 :: 64 word)
            \<and> sint (- 1 :: 64 word) < int (length (entries (obj self)))"
      using that unfolding m by arith
    then have a: "Tree_getitem_by_index mem self (PyInt (- 1))
               = wrap_tree_entry mem (nat (int (length (entries (obj self))) + - 1)) self"
      by (simp only: Tree_getitem_by_index_small [OF assms] if_True) simp
    have b: "Tree_getitem_by_index mem self (PyInt (of_nat (length (entries (obj self)) - 1)))
               = wrap_tree_entry mem (nat (int (length (entries (obj self)) - 1))) self"
      using that by (simp only: Tree_getitem_by_index_small [OF assms] s) simp
    have "nat (int (length (entries (obj self))) + - 1)
            = nat (int (length (entries (obj self)) - 1))"
      using that by arith
    with a b show ?thesis
      by (simp only: g)
  qed
  show ?thesis
    using last by (auto simp: g Tree_getitem_by_index_small [OF assms] wrap_tree_entry_def)
qed

theorem tree_index_range_witness:
  "length (entries (obj tree_abc)) < 2 ^ 31
   \<and> Tree_getitem True tree_abc (PyInt (- 1))
       = Inr \<lparr>entry = 2, tree = tree_abc\<lparr>ob_refcnt := 2\<rparr>\<rparr>
   \<and> Tree_getitem True tree_abc (PyInt 2)
       = Inr \<lparr>entry = 2, tree = tree_abc\<lparr>ob_refcnt := 2\<rparr>\<rparr>
   \<and> entry_name (entries (obj tree_abc) ! 2) = ''c''
   \<and> Tree_getitem True tree_abc (PyInt 3) = Inl (IndexError (PyInt 3))
   \<and> Tree_getitem True tree_abc (PyInt (- 4)) = Inl (IndexError (PyInt (- 4)))"
proof -
  have n: "length (entries (obj tree_abc)) = 3"
    by (simp add: tree_abc_def tree_of_def)
  then have h: "length (entries (obj tree_abc)) < 2 ^ 31"
    by simp
  have r: "ob_refcnt tree_abc = 1"
    by (simp add: tree_abc_def tree_of_def)
  have c: "entry_name (entries (obj tree_abc) ! 2) = ''c''"
    by (simp add: tree_abc_def tree_of_def file_entry_def)
  show ?thesis
    using h c
      tree_index_range [OF h, of "- 1" True]
      tree_index_range [OF h, of 2 True]
      tree_index_range [OF h, of 3 True]
      tree_index_range [OF h, of "- 4" True]
    by (simp add: n r)
qed

lemma slot_of_name_Some:
  "slot_of_name nm es = Some i \<Longrightarrow>
     i < length es \<and> entry_name (es ! i) = nm \<and> (\<forall>j < i. entry_name (es ! j) \<noteq> nm)"
proof (induction es arbitrary: i)
  case Nil
  then show ?case by simp
next
  case (Cons e es)
  show ?case
  proof (cases "entry_name e = nm")
    case True
    with Cons.prems show ?thesis by simp
  next
    case False
    with Cons.prems obtain k where k: "slot_of_name nm es = Some k" "i = Suc k"
      by auto
    from Cons.IH [OF k(1)] False k(2) show ?thesis
      by (auto simp: nth_Cons split: nat.splits)
  qed
qed

lemma slot_of_name_None:
  "slot_of_name nm es = None \<longleftrightarrow> (\<forall>e \<in> set es. entry_name e \<noteq> nm)"
  by (induction es) auto

lemma length_remove_slot:
  "i < length (entries t) \<Longrightarrow> length (entries (remove_slot i t)) + 1 = length (entries t)"
  by (simp add: remove_slot_def)

section \<open>Assigning into a tree\<close>

text \<open>
  C8. For every tree, every key and every value, the assignment \<open>tree[key] = value\<close> fails
  with the value error \<open>Cannot set TreeEntry directly; use add_entry.\<close> and the tree
  wrapper is left as it was, its entries and its length with it.
\<close>

theorem tree_assignment_rejected:
  "Tree_delitem self key (Some v)
     = (Inl (ValueError ''Cannot set TreeEntry directly; use add_entry.''), self)
   \<and> entries (obj (snd (Tree_delitem self key (Some v)))) = entries (obj self)
   \<and> Tree_len (snd (Tree_delitem self key (Some v))) = Tree_len self"
  by (simp add: Tree_delitem_def)

section \<open>Keys of the wrong type\<close>

text \<open>
  C10. For every tree and every key that is neither a \<open>str\<close> nor an \<open>int\<close>, indexing and
  deleting both fail with the type error \<open>Expected int or str for tree index.\<close>; the answer
  does not depend on the tree, and the tree wrapper is left as it was.
\<close>

theorem tree_key_type_error:
  assumes "\<not> PyString_Check key" and "\<not> PyInt_Check key"
  shows "Tree_getitem mem self key = Inl (TypeError ''Expected int or str for tree index.'')
         \<and> Tree_delitem self key None
             = (Inl (TypeError ''Expected int or str for tree index.''), self)"
  using assms by (simp add: Tree_getitem_def Tree_delitem_def)

theorem tree_key_type_error_witness:
  "\<not> PyString_Check (PyOther ''float'') \<and> \<not> PyInt_Check (PyOther ''float'')
   \<and> Tree_getitem True tree_abc (PyOther ''float'')
       = Inl (TypeError ''Expected int or str for tree index.'')
   \<and> Tree_delitem tree_abc (PyOther ''float'') None
       = (Inl (TypeError ''Expected int or str for tree index.''), tree_abc)"
proof -
  have a: "\<not> PyString_Check (PyOther ''float'')" and b: "\<not> PyInt_Check (PyOther ''float'')"
    by (simp_all add: PyString_Check_def PyInt_Check_def)
  show ?thesis
    using a b tree_key_type_error [OF a b, of True tree_abc] by simp
qed

section \<open>Adding an entry\<close>



section \<open>Deleting from a tree\<close>

text \<open>
  C6, as stated: a successful deletion by name removes a matching entry, and deleting a
  name with no matching entry fails with a key error. It does not: the tree with the
  entries \<open>a\<close>, \<open>b\<close>, \<open>c\<close> has no entry named \<open>b\<close>, NUL, \<open>x\<close>, yet deleting that name
  succeeds and takes out the entry \<open>b\<close>, since the library receives a C string.
\<close>

theorem delete_matches_name_before_nul:
  "map entry_name (entries (obj tree_abc)) = [''a'', ''b'', ''c'']
   \<and> Tree_delitem tree_abc (PyString (''b'' @ [CHR 0x00, CHR ''x''])) None
       = (Inr (), tree_of [file_entry ''a'', file_entry ''c''])"
  by (simp add: Tree_delitem_def PyString_Check_def Tree_delitem_by_name_def
      PyString_AS_STRING_def git_tree_remove_entry_byname_def git_tree_entry_byname_def
      c_str_def tree_abc_def tree_of_def file_entry_def remove_slot_def)

text \<open>
  C6, amended. Deleting resolves its key as indexing does: it fails exactly when indexing
  fails (the wrapper of the entry allocated), with the same error, and otherwise removes
  the very slot that indexing answers. A name is matched as the library reads it, the
  bytes of the key before its first NUL: a successful deletion by name takes out one
  entry, whose name is that part of the key, keeps the others in order and lowers the
  length by one; deleting a name of which that part names no entry fails with a key
  error that carries the key, the tree unchanged.
\<close>

theorem delete_resolves_like_get:
  "(fst (Tree_delitem self key None) = Inl e \<longleftrightarrow> Tree_getitem True self key = Inl e)
   \<and> (Tree_getitem True self key = Inr te \<longrightarrow>
        entry te < length (entries (obj self))
        \<and> Tree_delitem self key None
            = (Inr (), self\<lparr>obj := remove_slot (entry te) (obj self)\<rparr>))
   \<and> (PyString_Check key \<and> Tree_delitem self key None = (Inr (), self') \<longrightarrow>
        (\<exists>i < length (entries (obj self)).
            entry_name (entries (obj self) ! i) = PyString_AS_STRING key
            \<and> entries (obj self')
                = take i (entries (obj self)) @ drop (Suc i) (entries (obj self)))
        \<and> length (entries (obj self')) + 1 = length (entries (obj self))
        \<and> Tree_len self' + 1 = Tree_len self)
   \<and> (PyString_Check key
        \<and> (\<forall>x \<in> set (entries (obj self)). entry_name x \<noteq> PyString_AS_STRING key) \<longrightarrow>
        Tree_delitem self key None = (Inl (KeyError key), self))
   \<and> PyString_Check (PyString nm)
   \<and> PyString_AS_STRING (PyString nm) = c_str nm"
proof -
  have p1: "fst (Tree_delitem self key None) = Inl e \<longleftrightarrow> Tree_getitem True self key = Inl e"
    by (auto simp: Tree_delitem_def Tree_getitem_def Tree_delitem_by_name_def
        Tree_getitem_by_name_def Tree_delitem_by_index_def Tree_getitem_by_index_def
        git_tree_remove_entry_byname_def git_tree_remove_entry_byindex_def wrap_tree_entry_def
        split: option.splits sum.splits)
  have p2: "entry te < length (entries (obj self))
        \<and> Tree_delitem self key None
            = (Inr (), self\<lparr>obj := remove_slot (entry te) (obj self)\<rparr>)"
    if "Tree_getitem True self key = Inr te"
    using that
    by (auto simp: Tree_delitem_def Tree_getitem_def Tree_delitem_by_name_def
        Tree_getitem_by_name_def Tree_delitem_by_index_def Tree_getitem_by_index_def
        git_tree_remove_entry_byname_def git_tree_remove_entry_byindex_def wrap_tree_entry_def
        git_tree_entry_byname_def git_tree_entry_byindex_def
        split: option.splits sum.splits if_splits dest: slot_of_name_Some)
  have p3: "(\<exists>i < length (entries (obj self)).
            entry_name (entries (obj self) ! i) = PyString_AS_STRING key
            \<and> entries (obj self')
                = take i (entries (obj self)) @ drop (Suc i) (entries (obj self)))
        \<and> length (entries (obj self')) + 1 = length (entries (obj self))
        \<and> Tree_len self' + 1 = Tree_len self"
    if "PyString_Check key" and "Tree_delitem self key None = (Inr (), self')"
  proof -
    from that obtain i where i:
        "slot_of_name (PyString_AS_STRING key) (entries (obj self)) = Some i"
        "self' = self\<lparr>obj := remove_slot i (obj self)\<rparr>"
      by (auto simp: Tree_delitem_def Tree_delitem_by_name_def
          git_tree_remove_entry_byname_def git_tree_entry_byname_def
          split: option.splits)
    from slot_of_name_Some [OF i(1)]
    have b: "i < length (entries (obj self))"
        "entry_name (entries (obj self) ! i) = PyString_AS_STRING key"
      by simp_all
    from i(2) have e: "entries (obj self')
        = take i (entries (obj self)) @ drop (Suc i) (entries (obj self))"
      by (simp add: remove_slot_def)
    from b(1) e have l: "length (entries (obj self')) + 1 = length (entries (obj self))"
      by simp
    have "Tree_len self' + 1 = of_nat (length (entries (obj self')) + 1)"
      by (simp add: Tree_len_def git_tree_entrycount_def)
    with l have "Tree_len self' + 1 = Tree_len self"
      by (simp add: Tree_len_def git_tree_entrycount_def)
    with b e l show ?thesis
      by blast
  qed
  have p4: "Tree_delitem self key None = (Inl (KeyError key), self)"
    if "PyString_Check key"
      and "\<forall>x \<in> set (entries (obj self)). entry_name x \<noteq> PyString_AS_STRING key"
  proof -
    from that(2) have "slot_of_name (PyString_AS_STRING key) (entries (obj self)) = None"
      by (simp add: slot_of_name_None)
    with that(1) show ?thesis
      by (simp add: Tree_delitem_def Tree_delitem_by_name_def
          git_tree_remove_entry_byname_def git_tree_entry_byname_def)
  qed
  have p5: "PyString_Check (PyString nm)"
    by (simp add: PyString_Check_def)
  have p6: "PyString_AS_STRING (PyString nm) = c_str nm"
    by (simp add: PyString_AS_STRING_def)
  from p1 p2 p3 p4 p5 p6 show ?thesis
    by blast
qed

theorem delete_resolves_like_get_witness:
  "Tree_delitem tree_abc (PyString ''b'') None
     = (Inr (), tree_of [file_entry ''a'', file_entry ''c''])
   \<and> Tree_len (tree_of [file_entry ''a'', file_entry ''c'']) + 1 = Tree_len tree_abc
   \<and> Tree_delitem tree_abc (PyString ''zz'') None = (Inl (KeyError (PyString ''zz'')), tree_abc)
   \<and> Tree_getitem True tree_abc (PyString ''zz'') = Inl (KeyError (PyString ''zz''))"
proof -
  have a: "Tree_delitem tree_abc (PyString ''b'') None
     = (Inr (), tree_of [file_entry ''a'', file_entry ''c''])"
    by (simp add: Tree_delitem_def PyString_Check_def Tree_delitem_by_name_def
        PyString_AS_STRING_def git_tree_remove_entry_byname_def git_tree_entry_byname_def
        c_str_def tree_abc_def tree_of_def file_entry_def remove_slot_def)
  have b: "PyString_Check (PyString ''zz'')
      \<and> (\<forall>x \<in> set (entries (obj tree_abc)). entry_name x \<noteq> PyString_AS_STRING (PyString ''zz''))"
    by (simp add: tree_abc_def tree_of_def file_entry_def c_str_def PyString_Check_def
        PyString_AS_STRING_def)
  have z: "Tree_delitem tree_abc (PyString ''zz'') None
             = (Inl (KeyError (PyString ''zz'')), tree_abc)"
    using b delete_resolves_like_get [of tree_abc "PyString ''zz''"] by blast
  then have "fst (Tree_delitem tree_abc (PyString ''zz'') None) = Inl (KeyError (PyString ''zz''))"
    by simp
  then have g: "Tree_getitem True tree_abc (PyString ''zz'') = Inl (KeyError (PyString ''zz''))"
    using delete_resolves_like_get [of tree_abc "PyString ''zz''" "KeyError (PyString ''zz'')"]
    by blast
  have l: "Tree_len (tree_of [file_entry ''a'', file_entry ''c'']) + 1 = Tree_len tree_abc"
    using a delete_resolves_like_get [of tree_abc "PyString ''b''" _ _
        "tree_of [file_entry ''a'', file_entry ''c'']" "''b''"]
    by blast
  from a l z g show ?thesis
    by simp
qed

section \<open>Facts about the wrappers\<close>

declare wrap_tag.simps [simp del] wrap_object.simps [simp del]

lemma wrap_cell:
  "(wrap_tag mem h tg rp = Inr (h', a) \<longrightarrow>
      a = length h \<and> length h < length h' \<and> take (length h) h' = h
      \<and> obj (h' ! a) = tg \<and> py_repo (h' ! a) = rp \<and> \<not> own_obj (h' ! a))"
  "(wrap_object mem h ob rp = Inr (h', p) \<longrightarrow>
      (\<exists>t. p = PyInstance t (length h)) \<and> length h < length h' \<and> take (length h) h' = h
      \<and> obj (h' ! length h) = ob \<and> py_repo (h' ! length h) = rp
      \<and> \<not> own_obj (h' ! length h))"
proof (induction mem h tg rp and mem h ob rp arbitrary: h' a and h' p
    rule: wrap_tag_wrap_object.induct)
  case (1 mem h tg rp)
  show ?case
  proof
    assume w: "wrap_tag mem h tg rp = Inr (h', a)"
    then have mem: mem
      by (simp add: wrap_tag.simps split: if_splits)
    from w mem obtain t where t: "git_tag_target tg = Some t"
      by (cases "git_tag_target tg") (simp_all add: wrap_tag.simps)
    from w mem t obtain h2 pt where
      i: "wrap_object mem (h @ [new_cell tg rp]) t rp = Inr (h2, pt)"
      and r: "h' = Py_INCREF (h2[length h := (h2 ! length h)\<lparr>target := Some pt\<rparr>]) pt"
        "a = length h"
      by (auto simp: wrap_tag.simps split: sum.splits)
    have "(\<exists>ty. pt = PyInstance ty (length (h @ [new_cell tg rp])))
        \<and> length (h @ [new_cell tg rp]) < length h2
        \<and> take (length (h @ [new_cell tg rp])) h2 = h @ [new_cell tg rp]"
      using "1.IH" mem t i by blast
    then obtain ty where
      ih: "pt = PyInstance ty (Suc (length h))" "Suc (length h) < length h2"
        "take (Suc (length h)) h2 = h @ [new_cell tg rp]"
      by auto
    from ih(3) have c: "h2 ! length h = new_cell tg rp"
      by (metis lessI nth_append_length nth_take)
    from ih(3) have p: "take (length h) h2 = h"
      by (metis append_eq_conv_conj butlast_snoc butlast_take diff_Suc_1 ih(2) less_imp_le_nat)
    from ih r c p show "a = length h \<and> length h < length h' \<and> take (length h) h' = h
      \<and> obj (h' ! a) = tg \<and> py_repo (h' ! a) = rp \<and> \<not> own_obj (h' ! a)"
      by (simp add: Py_INCREF_def new_cell_def)
  qed
next
  case (2 mem h ob rp)
  show ?case
  proof
    assume w: "wrap_object mem h ob rp = Inr (h', p)"
    show "(\<exists>t. p = PyInstance t (length h)) \<and> length h < length h' \<and> take (length h) h' = h
      \<and> obj (h' ! length h) = ob \<and> py_repo (h' ! length h) = rp
      \<and> \<not> own_obj (h' ! length h)"
    proof (cases "git_object_type ob = GIT_OBJ_TAG")
      case True
      with w obtain a where a: "wrap_tag mem h ob rp = Inr (h', a)" "p = PyInstance TagType a"
        by (auto simp: wrap_object.simps split: sum.splits)
      have "a = length h \<and> length h < length h' \<and> take (length h) h' = h
        \<and> obj (h' ! a) = ob \<and> py_repo (h' ! a) = rp \<and> \<not> own_obj (h' ! a)"
        using "2.IH" True a(1) by blast
      with a(2) show ?thesis
        by blast
    next
      case False
      with w show ?thesis
        by (cases "git_object_type ob")
           (auto simp: wrap_object.simps new_cell_def split: if_splits)
    qed
  qed
qed

lemma wrap_object_complete:
  "complete_object ob \<Longrightarrow> \<exists>h' p. wrap_object True h ob rp = Inr (h', p)"
proof (induction ob arbitrary: h rule: complete_object.induct)
  case (1 oid t)
  then obtain h' p where "wrap_object True (h @ [new_cell (GitObject GIT_OBJ_TAG oid (Some t)) rp]) t rp
      = Inr (h', p)"
    by fastforce
  then have "\<exists>h2 a. wrap_tag True h (GitObject GIT_OBJ_TAG oid (Some t)) rp = Inr (h2, a)"
    by (simp add: wrap_tag.simps)
  then show ?case
    by (auto simp: wrap_object.simps)
qed (simp_all add: wrap_object.simps)

lemma git_repository_lookup_any:
  "git_repository_lookup r oid GIT_OBJ_ANY = None \<longleftrightarrow> odb_objects r oid = None"
  by (simp add: git_repository_lookup_def split: option.splits)

lemma git_repository_lookup_id:
  "git_repository_lookup r oid ty = Some ob \<Longrightarrow> git_object_id ob = Some oid"
  by (auto simp: git_repository_lookup_def split: option.splits if_splits)

lemma git_repository_lookup_complete:
  "git_repository_lookup r oid ty = Some ob \<Longrightarrow> odb_objects r oid = Some ob' \<Longrightarrow>
     complete_object ob = complete_object ob'"
  by (cases ob'; cases ob)
     (auto simp: git_repository_lookup_def split: if_splits elim: complete_object.elims)

lemma Repository_getitem_Inr:
  assumes "Repository_getitem mem h self v = Inr (h', p)"
  shows "\<exists>ty a oid. p = PyInstance ty a \<and> a < length h' \<and> \<not> own_obj (h' ! a)
           \<and> py_str_to_git_oid v = Inr oid \<and> git_object_id (obj (h' ! a)) = Some oid"
proof -
  from assms obtain oid ob h2 p2 where
    o: "py_str_to_git_oid v = Inr oid"
       "git_repository_lookup (repo self) oid GIT_OBJ_ANY = Some ob"
       "wrap_object mem h ob self = Inr (h2, p2)"
    by (auto simp: Repository_getitem_def split: sum.splits option.splits)
  from wrap_cell(2) [of mem h ob self h2 p2] o(3) obtain ty where
    c: "p2 = PyInstance ty (length h)" "length h < length h2" "obj (h2 ! length h) = ob"
    by auto
  from assms o c have "h' = h2[length h := (h2 ! length h)\<lparr>own_obj := False\<rparr>] \<and> p = p2"
    by (auto simp: Repository_getitem_def)
  with c git_repository_lookup_id [OF o(2)] o(1) show ?thesis
    by simp
qed

section \<open>Looking an identifier up\<close>

text \<open>
  C4. For every key that parses to an identifier under which the store holds no object,
  the lookup of a repository fails with a key error whose key is the very object that was
  passed; every well-formed text of 40 hexadecimal characters parses. When the lookup
  succeeds it answers an instance whose wrapper has \<open>own_obj\<close> cleared, and it succeeds
  whenever the store holds a complete object under the identifier and the wrappers can be
  allocated.
\<close>

theorem lookup_not_found_keeps_key:
  "(py_str_to_git_oid v = Inr oid \<and> odb_objects (repo self) oid = None \<longrightarrow>
      Repository_getitem mem h self v = Inl (KeyError v))
   \<and> (is_hex_sha t \<longrightarrow> \<not> isl (py_str_to_git_oid (PyString t)))
   \<and> (Repository_getitem mem h self v = Inr (h', p) \<longrightarrow>
        (\<exists>ty a. p = PyInstance ty a \<and> a < length h' \<and> \<not> own_obj (h' ! a)))
   \<and> (py_str_to_git_oid v = Inr oid \<and> odb_objects (repo self) oid = Some ob
        \<and> complete_object ob \<longrightarrow>
        (\<exists>h2 ty a. Repository_getitem True h self v = Inr (h2, PyInstance ty a)
                    \<and> \<not> own_obj (h2 ! a)))"
proof -
  have p1: "Repository_getitem mem h self v = Inl (KeyError v)"
    if "py_str_to_git_oid v = Inr oid" and "odb_objects (repo self) oid = None"
  proof -
    from that(2) have "git_repository_lookup (repo self) oid GIT_OBJ_ANY = None"
      by (simp add: git_repository_lookup_any)
    with that(1) show ?thesis
      by (simp add: Repository_getitem_def Error_set_py_str_def)
  qed
  have p2: "\<not> isl (py_str_to_git_oid (PyString t))" if "is_hex_sha t"
    using that git_oid_mkstr_ok_iff [of t] by (auto simp: py_str_to_git_oid_hex)
  have p3: "\<exists>ty a. p = PyInstance ty a \<and> a < length h' \<and> \<not> own_obj (h' ! a)"
    if "Repository_getitem mem h self v = Inr (h', p)"
    using Repository_getitem_Inr [OF that] by blast
  have p4: "\<exists>h2 ty a. Repository_getitem True h self v = Inr (h2, PyInstance ty a)
                    \<and> \<not> own_obj (h2 ! a)"
    if "py_str_to_git_oid v = Inr oid" and "odb_objects (repo self) oid = Some ob"
      and "complete_object ob"
  proof -
    from that(2) obtain ob' where
      l: "git_repository_lookup (repo self) oid GIT_OBJ_ANY = Some ob'"
      by (simp add: git_repository_lookup_def)
    with that(2,3) have "complete_object ob'"
      using git_repository_lookup_complete [OF l that(2)] by simp
    then obtain h1 p1 where w: "wrap_object True h ob' self = Inr (h1, p1)"
      using wrap_object_complete [of ob' h self] by auto
    with that(1) l obtain h2 p2 where g: "Repository_getitem True h self v = Inr (h2, p2)"
      by (cases p1) (simp_all add: Repository_getitem_def)
    from Repository_getitem_Inr [OF g] g show ?thesis
      by blast
  qed
  from p1 p2 p3 p4 show ?thesis
    by blast
qed

theorem lookup_not_found_keeps_key_witness:
  "is_hex_sha ''0123456789abcdef0123456789abcdef01234567''
   \<and> Repository_getitem True [] empty_repository
         (PyString ''0123456789abcdef0123456789abcdef01234567'')
       = Inl (KeyError (PyString ''0123456789abcdef0123456789abcdef01234567''))
   \<and> (\<exists>h2 ty a. Repository_getitem True [] blob_repository
                     (PyString ''0123456789abcdef0123456789abcdef01234567'')
                   = Inr (h2, PyInstance ty a)
                 \<and> \<not> own_obj (h2 ! a))"
proof -
  have h: "is_hex_sha ''0123456789abcdef0123456789abcdef01234567''"
    by (simp add: is_hex_sha_def is_hex_char_def)
  then obtain oid where
    oid: "py_str_to_git_oid (PyString ''0123456789abcdef0123456789abcdef01234567'') = Inr oid"
    using git_oid_mkstr_ok_iff [of "''0123456789abcdef0123456789abcdef01234567''"]
    by (auto simp: py_str_to_git_oid_hex)
  have e: "odb_objects (repo empty_repository) oid = None"
    by (simp add: empty_repository_def)
  have b: "odb_objects (repo blob_repository) oid = Some (GitObject GIT_OBJ_BLOB None None)
           \<and> complete_object (GitObject GIT_OBJ_BLOB None None)"
    by (simp add: blob_repository_def)
  have "Repository_getitem True [] empty_repository
         (PyString ''0123456789abcdef0123456789abcdef01234567'')
       = Inl (KeyError (PyString ''0123456789abcdef0123456789abcdef01234567''))"
    using oid e lookup_not_found_keeps_key
      [of "PyString ''0123456789abcdef0123456789abcdef01234567''" oid empty_repository True "[]"]
    by blast
  moreover have "\<exists>h2 ty a. Repository_getitem True [] blob_repository
                     (PyString ''0123456789abcdef0123456789abcdef01234567'')
                   = Inr (h2, PyInstance ty a)
                 \<and> \<not> own_obj (h2 ! a)"
    using oid b lookup_not_found_keeps_key
      [of "PyString ''0123456789abcdef0123456789abcdef01234567''" oid blob_repository True "[]"
         _ _ _ "GitObject GIT_OBJ_BLOB None None"]
    by blast
  ultimately show ?thesis
    using h by blast
qed

section \<open>Identifier and raw contents of an object\<close>

text \<open>
  C5, as stated: the identifier of an object is \<open>None\<close> if and only if the object is owned
  and has never been written. It is not so for the wrapper that the target getter of a
  tag answers: a new blob, never written, is set as the target of a new tag (heap
  \<open>heap0\<close>, the blob at address 0 and the tag at address 1); the getter wraps the tagged
  object in a new cell whose \<open>own_obj\<close> is 0, and the identifier of that borrowed wrapper
  is \<open>None\<close>.
\<close>

theorem borrowed_wrapper_without_identifier:
  "Blob_init True [PyRepository empty_repository] None = Inr blob0
   \<and> Tag_init True [PyRepository empty_repository] None = Inr tag0
   \<and> Tag_set_target heap0 1 (PyInstance BlobType 0) = (Inr (), heap1)
   \<and> Tag_get_target True heap1 (heap1 ! 1) = Inr (heap2, PyInstance BlobType 2)
   \<and> \<not> own_obj (heap2 ! 2)
   \<and> Object_get_sha (heap2 ! 2) = PyNone"
proof -
  have a: "Blob_init True [PyRepository empty_repository] None = Inr blob0"
    by (simp add: Blob_init_def Object_init_with_type_def PyObject_TypeCheck_Repository_def
        git_object_new_def blob0_def)
  have b: "Tag_init True [PyRepository empty_repository] None = Inr tag0"
    by (simp add: Tag_init_def Object_init_with_type_def PyObject_TypeCheck_Repository_def
        git_object_new_def tag0_def cell_of_def)
  have c: "Tag_set_target heap0 1 (PyInstance BlobType 0) = (Inr (), heap1)"
    by (simp add: Tag_set_target_def PyObject_TypeCheck_Object_def Py_XDECREF_def Py_INCREF_def
        git_tag_set_target_def heap0_def heap1_def tag0_def blob0_def cell_of_def Let_def)
  have d: "Tag_get_target True heap1 (heap1 ! 1) = Inr (heap2, PyInstance BlobType 2)"
    by (simp add: Tag_get_target_def wrap_object.simps heap2_def heap1_def tag0_def)
  have e: "\<not> own_obj (heap2 ! 2) \<and> Object_get_sha (heap2 ! 2) = PyNone"
    by (simp add: heap2_def heap1_def new_cell_def Object_get_sha_def)
  from a b c d e show ?thesis
    by simp
qed

text \<open>
  C5, amended: the identifier of an object is \<open>None\<close> if and only if its library object has
  no identifier, that is, has never been written; \<open>read_raw\<close> answers \<open>None\<close> in exactly
  that case and otherwise delegates to the raw read of the repository with the identifier
  of the object, answering the bytes read or the error translated with the formatted
  identifier. An object fresh from its constructor is owned and has no identifier; after
  a successful write it has one, and a failed write changes nothing; an object answered by
  the lookup of a repository is borrowed and has the identifier it was looked up under.
\<close>

theorem identifier_none_iff_unwritten:
  "(Object_get_sha self = PyNone \<longleftrightarrow> git_object_id (obj self) = None)
   \<and> (Object_read_raw self = Inr PyNone \<longleftrightarrow> git_object_id (obj self) = None)
   \<and> (git_object_id (obj self) = Some oid \<longrightarrow>
        Object_get_sha self = PyString (git_oid_fmt oid)
        \<and> Object_read_raw self =
            (case Repository_read_raw (repo (py_repo self)) oid of
               Inl err \<Rightarrow> Inl (Error_set_py_str err (PyString (git_oid_fmt oid)))
             | Inr raw \<Rightarrow> Inr (PyString (rawobj_data raw))))
   \<and> (Object_init_with_type mem name ty args kwds = Inr s \<longrightarrow>
        own_obj s \<and> Object_get_sha s = PyNone \<and> Object_read_raw s = Inr PyNone)
   \<and> (Object_write answer self = (Inr r, self2) \<longrightarrow> Object_get_sha self2 \<noteq> PyNone)
   \<and> (Object_write answer self = (Inl e, self2) \<longrightarrow> self2 = self)
   \<and> (Repository_getitem mem h rp v = Inr (h2, PyInstance t a) \<longrightarrow>
        \<not> own_obj (h2 ! a) \<and> Object_get_sha (h2 ! a) \<noteq> PyNone)"
proof -
  have p1: "Object_get_sha self = PyNone \<longleftrightarrow> git_object_id (obj self) = None"
    by (simp add: Object_get_sha_def PyString_FromStringAndSize_def split: option.splits)
  have p2: "Object_read_raw self = Inr PyNone \<longleftrightarrow> git_object_id (obj self) = None"
    by (simp add: Object_read_raw_def PyString_FromStringAndSize_def
        split: option.splits sum.splits)
  have p3: "Object_get_sha self = PyString (git_oid_fmt oid)
        \<and> Object_read_raw self =
            (case Repository_read_raw (repo (py_repo self)) oid of
               Inl err \<Rightarrow> Inl (Error_set_py_str err (PyString (git_oid_fmt oid)))
             | Inr raw \<Rightarrow> Inr (PyString (rawobj_data raw)))"
    if "git_object_id (obj self) = Some oid"
    using that Object_get_sha_Some [OF that]
    by (simp add: Object_read_raw_def PyString_FromStringAndSize_def split: sum.splits)
  have p4: "own_obj s \<and> Object_get_sha s = PyNone \<and> Object_read_raw s = Inr PyNone"
    if "Object_init_with_type mem name ty args kwds = Inr s"
    using that
    by (auto simp: Object_init_with_type_def PyObject_TypeCheck_Repository_def
        git_object_new_def Object_get_sha_def
        Object_read_raw_def split: option.splits list.splits pyobj.splits if_splits)
  have p5: "Object_get_sha self2 \<noteq> PyNone" if "Object_write answer self = (Inr r, self2)"
    using that
    by (auto simp: Object_write_def git_object_write_def Object_get_sha_def
        PyString_FromStringAndSize_def split: sum.splits)
  have p6: "self2 = self" if "Object_write answer self = (Inl e, self2)"
    using that by (auto simp: Object_write_def split: sum.splits)
  have p7: "\<not> own_obj (h2 ! a) \<and> Object_get_sha (h2 ! a) \<noteq> PyNone"
    if "Repository_getitem mem h rp v = Inr (h2, PyInstance t a)"
    using Repository_getitem_Inr [OF that]
    by (auto simp: Object_get_sha_def PyString_FromStringAndSize_def)
  from p1 p2 p3 p4 p5 p6 p7 show ?thesis
    by blast
qed

theorem identifier_none_iff_unwritten_witness:
  "Object_get_sha blob0 = PyNone
   \<and> Object_read_raw blob0 = Inr PyNone
   \<and> own_obj blob0
   \<and> Object_read_raw (blob0\<lparr>py_repo := blob_repository, obj := GitObject GIT_OBJ_BLOB (Some zero_oid) None\<rparr>)
       = Inr (PyString ''data'')
   \<and> Object_get_sha (snd (Object_write (Inr zero_oid) blob0)) \<noteq> PyNone"
proof -
  have a: "Blob_init True [PyRepository empty_repository] None = Inr blob0"
    by (simp add: Blob_init_def Object_init_with_type_def PyObject_TypeCheck_Repository_def
        git_object_new_def blob0_def)
  then have i: "Object_init_with_type True (py_type_name BlobType) GIT_OBJ_BLOB
                  [PyRepository empty_repository] None = Inr blob0"
    by (simp add: Blob_init_def)
  have g: "git_object_id (obj (blob0\<lparr>py_repo := blob_repository,
              obj := GitObject GIT_OBJ_BLOB (Some zero_oid) None\<rparr>)) = Some zero_oid"
    by simp
  have r: "Repository_read_raw (repo (py_repo (blob0\<lparr>py_repo := blob_repository,
              obj := GitObject GIT_OBJ_BLOB (Some zero_oid) None\<rparr>))) zero_oid
            = Inr \<lparr>rawobj_type = GIT_OBJ_BLOB, rawobj_data = ''data''\<rparr>"
    by (simp add: Repository_read_raw_def git_odb_read_def blob_repository_def)
  have w: "Object_write (Inr zero_oid) blob0
             = (Inr PyNone, blob0\<lparr>obj := GitObject GIT_OBJ_BLOB (Some zero_oid) None\<rparr>)"
    by (simp add: Object_write_def git_object_write_def blob0_def)
  have x: "own_obj blob0 \<and> Object_get_sha blob0 = PyNone \<and> Object_read_raw blob0 = Inr PyNone"
    using i identifier_none_iff_unwritten
      [of blob0 _ True "py_type_name BlobType" GIT_OBJ_BLOB "[PyRepository empty_repository]"
         None blob0]
    by blast
  have y: "Object_read_raw (blob0\<lparr>py_repo := blob_repository,
              obj := GitObject GIT_OBJ_BLOB (Some zero_oid) None\<rparr>) = Inr (PyString ''data'')"
    using g r identifier_none_iff_unwritten
      [of "blob0\<lparr>py_repo := blob_repository, obj := GitObject GIT_OBJ_BLOB (Some zero_oid) None\<rparr>"
         zero_oid]
    by simp
  have z: "Object_get_sha (snd (Object_write (Inr zero_oid) blob0)) \<noteq> PyNone"
    using w identifier_none_iff_unwritten
      [of blob0 _ _ _ _ _ _ _ "Inr zero_oid" PyNone
         "blob0\<lparr>obj := GitObject GIT_OBJ_BLOB (Some zero_oid) None\<rparr>"]
    by simp
  from x y z show ?thesis
    by simp
qed

section \<open>The target of a tag\<close>

text \<open>
  C9, as stated: the setter of the target rejects any argument that is no \<open>Object\<close> with a
  type error. It does not reject a \<open>TreeEntry\<close>, the value that indexing a tree answers:
  \<open>initpygit2\<close> registers \<open>TreeEntry\<close> with the base type \<open>Object\<close>, so the entry passes the
  type check; the setter makes it the target of the tag and then reads \<open>target->obj\<close>
  past the end of the struct of the entry.
\<close>

theorem tag_target_accepts_tree_entry:
  "Tree_getitem True tree_abc (PyInt 0) = Inr tree_entry0
   \<and> tp_name (PyTreeEntry tree_entry0) = ''pygit2.TreeEntry''
   \<and> PyObject_TypeCheck_Object (PyTreeEntry tree_entry0)
   \<and> fst (Tag_set_target heap0 1 (PyTreeEntry tree_entry0)) = Inl Abort
   \<and> target (snd (Tag_set_target heap0 1 (PyTreeEntry tree_entry0)) ! 1)
       = Some (PyTreeEntry tree_entry0)"
proof -
  have l: "entries (obj tree_abc) \<noteq> [] \<and> length (entries (obj tree_abc)) < 2 ^ 31"
    by (simp add: tree_abc_def tree_of_def)
  have "Tree_getitem_by_index True tree_abc (PyInt 0) = wrap_tree_entry True 0 tree_abc"
    using l by (simp add: Tree_getitem_by_index_small)
  then have g: "Tree_getitem True tree_abc (PyInt 0) = Inr tree_entry0"
    by (simp add: Tree_getitem_def PyString_Check_def PyInt_Check_def wrap_tree_entry_def
        tree_entry0_def tree_abc_def tree_of_def)
  have t: "tp_name (PyTreeEntry tree_entry0) = ''pygit2.TreeEntry''"
    by (simp add: tp_name_def)
  have c: "PyObject_TypeCheck_Object (PyTreeEntry tree_entry0)"
    by (simp add: PyObject_TypeCheck_Object_def)
  have s: "Tag_set_target heap0 1 (PyTreeEntry tree_entry0)
      = (Inl Abort, [cell_of blob0, tag0\<lparr>target := Some (PyTreeEntry tree_entry0)\<rparr>])"
    by (simp add: Tag_set_target_def PyObject_TypeCheck_Object_def Py_XDECREF_def Py_INCREF_def
        heap0_def tag0_def Let_def)
  from g t c s show ?thesis
    by simp
qed

lemma nth_update_any: "xs[i := v] ! j = (if i = j \<and> i < length xs then v else xs ! j)"
  by (cases "i < length xs") (auto simp: nth_list_update list_update_beyond)

text \<open>
  X1. What the setter does with an instance of \<open>Commit\<close>, \<open>Tree\<close>, \<open>Blob\<close> or \<open>Tag\<close>, the
  library's tag taken to store the target it is given and to answer the type of that
  target. A tag fresh from its constructor has no target: the target getter and the
  target type are both \<open>None\<close>. Setting the target to such an instance succeeds:
  afterwards the tag refers to the instance, its library tag holds the library object of
  the instance, and the target type equals the type of the instance; the reference count
  of every object is what it was, lowered by one for the previous target and raised by
  one for the new target. An argument that fails the type check is rejected with a type
  error, the heap unchanged.
\<close>

theorem tag_target_set_and_get:
  "(Tag_init mem args kwds = Inr tg \<longrightarrow>
      target tg = None \<and> Tag_get_target mem2 h tg = Inr (h, PyNone)
      \<and> Tag_get_target_type tg = PyNone)
   \<and> (self < length h \<and> a < length h \<longrightarrow>
        (let h' = snd (Tag_set_target h self (PyInstance t a)) in
           fst (Tag_set_target h self (PyInstance t a)) = Inr ()
           \<and> length h' = length h
           \<and> target (h' ! self) = Some (PyInstance t a)
           \<and> git_tag_target (obj (h' ! self)) = Some (obj (h ! a))
           \<and> Tag_get_target_type (h' ! self) = Object_get_type (h ! a)
           \<and> Object_get_type (h' ! a) = Object_get_type (h ! a)
           \<and> (\<forall>x < length h.
                 ob_refcnt (h' ! x)
                   = ob_refcnt (h ! x)
                     - (if \<exists>t'. map_option py_base (target (h ! self))
                                  = Some (PyInstance t' x) then 1 else 0)
                     + (if x = a then 1 else 0))))
   \<and> (\<not> PyObject_TypeCheck_Object v \<longrightarrow>
        Tag_set_target h self v
          = (Inl (TypeError (''target must be pygit2.Object, not '' @ take 200 (tp_name v))), h))"
proof -
  have p1: "target tg = None \<and> Tag_get_target mem2 h tg = Inr (h, PyNone)
      \<and> Tag_get_target_type tg = PyNone"
    if "Tag_init mem args kwds = Inr tg"
  proof -
    from that obtain s where s: "Object_init_with_type mem (py_type_name TagType) GIT_OBJ_TAG
        args kwds = Inr s" "tg = cell_of s"
      by (auto simp: Tag_init_def split: sum.splits)
    from s(1) have "git_tag_target (obj s) = None"
      by (auto simp: Object_init_with_type_def git_object_new_def
          split: option.splits list.splits pyobj.splits if_splits)
    with s(2) show ?thesis
      by (simp add: cell_of_def Tag_get_target_def Tag_get_target_type_def)
  qed
  have p2: "(let h' = snd (Tag_set_target h self (PyInstance t a)) in
           fst (Tag_set_target h self (PyInstance t a)) = Inr ()
           \<and> length h' = length h
           \<and> target (h' ! self) = Some (PyInstance t a)
           \<and> git_tag_target (obj (h' ! self)) = Some (obj (h ! a))
           \<and> Tag_get_target_type (h' ! self) = Object_get_type (h ! a)
           \<and> Object_get_type (h' ! a) = Object_get_type (h ! a)
           \<and> (\<forall>x < length h.
                 ob_refcnt (h' ! x)
                   = ob_refcnt (h ! x)
                     - (if \<exists>t'. map_option py_base (target (h ! self))
                                  = Some (PyInstance t' x) then 1 else 0)
                     + (if x = a then 1 else 0)))"
    if "self < length h" and "a < length h"
  proof -
    define h1 where "h1 = Py_XDECREF h (target (h ! self))"
    have l1: "length h1 = length h"
      by (simp add: h1_def Py_XDECREF_def split: option.splits pyobj.splits)
    have r1: "ob_refcnt (h1 ! x)
        = ob_refcnt (h ! x)
          - (if \<exists>t'. map_option py_base (target (h ! self)) = Some (PyInstance t' x)
             then 1 else 0)"
      and o1: "obj (h1 ! x) = obj (h ! x)"
      if "x < length h" for x
      using that
      by (auto simp: h1_def Py_XDECREF_def nth_update_any split: option.splits pyobj.splits)
    have s: "Tag_set_target h self (PyInstance t a)
        = (Inr (),
           (h1[self := (h1 ! self)\<lparr>target := Some (PyInstance t a)\<rparr>,
               a := ((h1[self := (h1 ! self)\<lparr>target := Some (PyInstance t a)\<rparr>]) ! a)
                  \<lparr>ob_refcnt := ob_refcnt
                       ((h1[self := (h1 ! self)\<lparr>target := Some (PyInstance t a)\<rparr>]) ! a) + 1\<rparr>])
           [self := ((h1[self := (h1 ! self)\<lparr>target := Some (PyInstance t a)\<rparr>,
               a := ((h1[self := (h1 ! self)\<lparr>target := Some (PyInstance t a)\<rparr>]) ! a)
                  \<lparr>ob_refcnt := ob_refcnt
                       ((h1[self := (h1 ! self)\<lparr>target := Some (PyInstance t a)\<rparr>]) ! a) + 1\<rparr>])
                     ! self)
               \<lparr>obj := git_tag_set_target
                  (obj ((h1[self := (h1 ! self)\<lparr>target := Some (PyInstance t a)\<rparr>,
                     a := ((h1[self := (h1 ! self)\<lparr>target := Some (PyInstance t a)\<rparr>]) ! a)
                        \<lparr>ob_refcnt := ob_refcnt
                          ((h1[self := (h1 ! self)\<lparr>target := Some (PyInstance t a)\<rparr>]) ! a) + 1\<rparr>])
                        ! self))
                  (obj ((h1[self := (h1 ! self)\<lparr>target := Some (PyInstance t a)\<rparr>,
                     a := ((h1[self := (h1 ! self)\<lparr>target := Some (PyInstance t a)\<rparr>]) ! a)
                        \<lparr>ob_refcnt := ob_refcnt
                          ((h1[self := (h1 ! self)\<lparr>target := Some (PyInstance t a)\<rparr>]) ! a) + 1\<rparr>])
                        ! a))\<rparr>])"
      by (simp add: Tag_set_target_def PyObject_TypeCheck_Object_def Py_INCREF_def Let_def
          h1_def)
    from that l1 r1 o1 show ?thesis
      unfolding s Let_def
      by (auto simp: git_tag_set_target_def git_tag_type_def Tag_get_target_type_def
          Object_get_type_def nth_list_update)
  qed
  have p3: "Tag_set_target h self v
          = (Inl (TypeError (''target must be pygit2.Object, not '' @ take 200 (tp_name v))), h)"
    if "\<not> PyObject_TypeCheck_Object v"
    using that by (simp add: Tag_set_target_def)
  from p1 p2 p3 show ?thesis
    by blast
qed

theorem tag_target_set_and_get_witness:
  "Tag_init True [PyRepository empty_repository] None = Inr tag0
   \<and> Tag_get_target True heap0 tag0 = Inr (heap0, PyNone)
   \<and> Tag_get_target_type tag0 = PyNone
   \<and> Tag_set_target heap0 1 (PyInstance BlobType 0) = (Inr (), heap1)
   \<and> Tag_get_target_type (heap1 ! 1) = Object_get_type (heap0 ! 0)
   \<and> Object_get_type (heap0 ! 0) = PyInt 3
   \<and> ob_refcnt (heap1 ! 0) = 2
   \<and> ob_refcnt (snd (Tag_set_target heap1 1 (PyInstance TagType 1)) ! 0) = 1
   \<and> ob_refcnt (snd (Tag_set_target heap1 1 (PyInstance TagType 1)) ! 1) = 2
   \<and> Tag_set_target heap0 1 (PyString ''blob'')
       = (Inl (TypeError ''target must be pygit2.Object, not str''), heap0)"
proof -
  have b: "Tag_init True [PyRepository empty_repository] None = Inr tag0"
    by (simp add: Tag_init_def Object_init_with_type_def PyObject_TypeCheck_Repository_def
        git_object_new_def tag0_def cell_of_def)
  have c: "Tag_set_target heap0 1 (PyInstance BlobType 0) = (Inr (), heap1)"
    by (simp add: Tag_set_target_def PyObject_TypeCheck_Object_def Py_XDECREF_def Py_INCREF_def
        git_tag_set_target_def heap0_def heap1_def tag0_def blob0_def cell_of_def Let_def)
  have l0: "(1::nat) < length heap0 \<and> (0::nat) < length heap0"
    by (simp add: heap0_def)
  have l1: "(1::nat) < length heap1 \<and> (1::nat) < length heap1"
    by (simp add: heap1_def)
  have n: "\<not> PyObject_TypeCheck_Object (PyString ''blob'')"
    by (simp add: PyObject_TypeCheck_Object_def)
  have t: "Object_get_type (heap0 ! 0) = PyInt 3"
    by (simp add: Object_get_type_def heap0_def cell_of_def blob0_def git_otype_code_def
        PyInt_FromLong_def)
  have f: "Tag_get_target True heap0 tag0 = Inr (heap0, PyNone)
           \<and> Tag_get_target_type tag0 = PyNone"
    using b tag_target_set_and_get [of True "[PyRepository empty_repository]" None tag0 True heap0]
    by blast
  have s0: "Tag_get_target_type (heap1 ! 1) = Object_get_type (heap0 ! 0)
            \<and> ob_refcnt (heap1 ! 0) = 2"
    using l0 c tag_target_set_and_get [of _ _ _ _ _ heap0 1 0 BlobType]
    by (simp add: Let_def heap0_def cell_of_def blob0_def tag0_def)
  have s1: "ob_refcnt (snd (Tag_set_target heap1 1 (PyInstance TagType 1)) ! 0) = 1
            \<and> ob_refcnt (snd (Tag_set_target heap1 1 (PyInstance TagType 1)) ! 1) = 2"
    using l1 tag_target_set_and_get [of _ _ _ _ _ heap1 1 1 TagType]
    by (simp add: Let_def heap1_def cell_of_def blob0_def tag0_def)
  have r: "Tag_set_target heap0 1 (PyString ''blob'')
       = (Inl (TypeError ''target must be pygit2.Object, not str''), heap0)"
    using n tag_target_set_and_get [of _ _ _ _ _ heap0 1 _ _ "PyString ''blob''"]
    by (simp add: tp_name_def)
  from b c f s0 s1 t r show ?thesis
    by simp
qed

end
